theory Spec2Isabelle
  imports Main
begin

section \<open>Go strings\<close>

text \<open>
  A Go string is a sequence of bytes, here a \<^typ>\<open>string\<close>. The functions of package
  \<open>strings\<close> that the program calls are written out below. A backslash is
  \<open>CHR 0x5C\<close> and a single quote \<open>CHR 0x27\<close>.
\<close>

definition hasPrefix :: "string \<Rightarrow> string \<Rightarrow> bool" where
  "hasPrefix s p = (take (length p) s = p)"

definition hasSuffix :: "string \<Rightarrow> string \<Rightarrow> bool" where
  "hasSuffix s p = (length p \<le> length s \<and> drop (length s - length p) s = p)"

text \<open>
  \<open>strings.TrimSpace\<close> removes the leading and the trailing white space runes
  (\<open>unicode.IsSpace\<close>). \<open>spaceRunes\<close> lists their UTF-8 encodings: the six ASCII
  ones, U+0085, U+00A0, U+1680, U+2000 to U+200A, U+2028, U+2029, U+202F, U+205F, U+3000.
\<close>

definition spaceRunes :: "string list" where
  "spaceRunes =
    [[CHR 0x09], [CHR 0x0A], [CHR 0x0B], [CHR 0x0C], [CHR 0x0D], [CHR 0x20],
     [CHR 0xC2, CHR 0x85], [CHR 0xC2, CHR 0xA0],
     [CHR 0xE1, CHR 0x9A, CHR 0x80],
     [CHR 0xE2, CHR 0x80, CHR 0x80], [CHR 0xE2, CHR 0x80, CHR 0x81],
     [CHR 0xE2, CHR 0x80, CHR 0x82], [CHR 0xE2, CHR 0x80, CHR 0x83],
     [CHR 0xE2, CHR 0x80, CHR 0x84], [CHR 0xE2, CHR 0x80, CHR 0x85],
     [CHR 0xE2, CHR 0x80, CHR 0x86], [CHR 0xE2, CHR 0x80, CHR 0x87],
     [CHR 0xE2, CHR 0x80, CHR 0x88], [CHR 0xE2, CHR 0x80, CHR 0x89],
     [CHR 0xE2, CHR 0x80, CHR 0x8A],
     [CHR 0xE2, CHR 0x80, CHR 0xA8], [CHR 0xE2, CHR 0x80, CHR 0xA9],
     [CHR 0xE2, CHR 0x80, CHR 0xAF], [CHR 0xE2, CHR 0x81, CHR 0x9F],
     [CHR 0xE3, CHR 0x80, CHR 0x80]]"

text \<open>The width in bytes of the white space rune at the front (at the end) of a string,
  0 when there is none.\<close>

definition leadingSpace :: "string \<Rightarrow> nat" where
  "leadingSpace s = (case find (hasPrefix s) spaceRunes of None \<Rightarrow> 0 | Some r \<Rightarrow> length r)"

definition trailingSpace :: "string \<Rightarrow> nat" where
  "trailingSpace s = (case find (hasSuffix s) spaceRunes of None \<Rightarrow> 0 | Some r \<Rightarrow> length r)"

function trimLeft :: "string \<Rightarrow> string" where
  "trimLeft s = (if leadingSpace s = 0 then s else trimLeft (drop (leadingSpace s) s))"
  by pat_completeness auto
termination
proof (relation "measure length")
  fix s :: string
  assume nz: "leadingSpace s \<noteq> 0"
  have "s \<noteq> []"
  proof
    assume "s = []"
    then have "find (hasPrefix s) spaceRunes = None"
      by (simp add: find_None_iff hasPrefix_def spaceRunes_def)
    with nz show False by (simp add: leadingSpace_def)
  qed
  with nz show "(drop (leadingSpace s) s, s) \<in> measure length" by simp
qed simp

function trimRight :: "string \<Rightarrow> string" where
  "trimRight s =
     (if trailingSpace s = 0 then s else trimRight (take (length s - trailingSpace s) s))"
  by pat_completeness auto
termination
proof (relation "measure length")
  fix s :: string
  assume nz: "trailingSpace s \<noteq> 0"
  have "s \<noteq> []"
  proof
    assume "s = []"
    then have "find (hasSuffix s) spaceRunes = None"
      by (simp add: find_None_iff hasSuffix_def spaceRunes_def)
    with nz show False by (simp add: trailingSpace_def)
  qed
  with nz show "(take (length s - trailingSpace s) s, s) \<in> measure length" by simp
qed simp

declare trimLeft.simps [simp del] trimRight.simps [simp del]

definition trimSpace :: "string \<Rightarrow> string" where
  "trimSpace s = trimRight (trimLeft s)"

text \<open>The white space runes of one byte.\<close>

definition asciiSpaces :: "char list" where
  "asciiSpaces = [CHR 0x09, CHR 0x0A, CHR 0x0B, CHR 0x0C, CHR 0x0D, CHR 0x20]"

text \<open>
  \<open>strings.Split(s, sep)\<close> for a separator of one byte: the pieces between the
  separators, one piece (the empty one) for the empty string.
\<close>

fun split :: "char \<Rightarrow> string \<Rightarrow> string list" where
  "split sep [] = [[]]"
| "split sep (c # cs) =
     (if c = sep then [] # split sep cs
      else (case split sep cs of [] \<Rightarrow> [[c]] | p # ps \<Rightarrow> (c # p) # ps))"

text \<open>
  \<open>strings.ToUpper\<close> and \<open>strings.EqualFold\<close> on the ASCII letters. On runes beyond
  ASCII Go uses the Unicode tables; no such rune has the upper case \<open>L\<close> and none folds
  to a letter of \<open>NULL\<close>, the only two uses the program makes of them.
\<close>

definition toUpperByte :: "char \<Rightarrow> char" where
  "toUpperByte c =
     (case map_of (zip ''abcdefghijklmnopqrstuvwxyz'' ''ABCDEFGHIJKLMNOPQRSTUVWXYZ'') c of
        None \<Rightarrow> c | Some u \<Rightarrow> u)"

definition toUpper :: "string \<Rightarrow> string" where
  "toUpper s = map toUpperByte s"

definition equalFold :: "string \<Rightarrow> string \<Rightarrow> bool" where
  "equalFold s t = (toUpper s = toUpper t)"

text \<open>\<open>fmt.Sprintf("%d", n)\<close> for a number that is not negative.\<close>

definition digitChar :: "nat \<Rightarrow> char" where
  "digitChar d = ''0123456789'' ! d"

fun itoa :: "nat \<Rightarrow> string" where
  "itoa n = (if n < 10 then [digitChar n] else itoa (n div 10) @ [digitChar (n mod 10)])"

declare itoa.simps [simp del]

text \<open>\<open>'%s'\<close> in a format string: the text between single quotes.\<close>

definition quoted :: "string \<Rightarrow> string" where
  "quoted s = [CHR 0x27] @ s @ [CHR 0x27]"

section \<open>The outside world\<close>

text \<open>
  An error is its message; \<open>fmt.Errorf("...: %v", err)\<close> puts the message of \<open>err\<close>
  behind a prefix.
\<close>

datatype error = Error string

fun errorMsg :: "error \<Rightarrow> string" where
  "errorMsg (Error m) = m"

text \<open>\<open>drive.File\<close>, with the fields the program asks the store for.\<close>

record drive_file =
  file_Id :: string
  file_Name :: string
  file_CreatedTime :: string
  file_Size :: int
  file_Parents :: "string list"

text \<open>A cell of the ledger as \<open>Values.Get\<close> returns it (an \<open>interface{}\<close>): a string
  or something else.\<close>

datatype cell = StringCell string | OtherCell

text \<open>
  Every call that leaves the process: the remote store (\<open>Files.Delete\<close>, \<open>Files.Get\<close>
  with its field mask, \<open>Files.Get(...).Download\<close>), the local file system, the external
  commands (\<open>exec.Command(name, args...)\<close> run once) and the ledger. An event is a call
  with whether it succeeded; the trace of a world lists the events oldest first.
\<close>

datatype call =
    FilesDelete string
  | FilesGet string string
  | FilesDownload string
  | OsCreate string
  | IoCopy string
  | MkdirTemp string string
  | RemoveAll string
  | Exec string "string list"
  | Walk string
  | ValuesGet string string
  | ValuesUpdate string string "cell list list"
  | ValuesAppend string string "cell list list"

type_synonym event = "call \<times> bool"

text \<open>
  One invocation of the function that \<open>filepath.Walk\<close> is given: the path, the name
  \<open>info.Name()\<close>, whether the entry is a directory (\<open>info.IsDir()\<close>), and the
  error \<open>Walk\<close> passes in (from \<open>Lstat\<close> or from reading a directory).
\<close>

record visit =
  visit_path :: string
  visit_name :: string
  visit_isDir :: bool
  visit_err :: "error option"

text \<open>
  What the program cannot decide is a parameter: whether a call fails (and with what
  error), given the events so far; what an external command prints; the record
  \<open>Files.Get\<close> returns; the name \<open>os.MkdirTemp\<close> picks; the entries \<open>filepath.Walk\<close>
  visits, in its order; the clock, in nanoseconds; \<open>time.Parse(time.RFC3339, s)\<close>, in
  nanoseconds, \<open>None\<close> for an error; \<open>t.In(loc).Format("1/2/2006 15:04:05")\<close> in
  the location that \<open>SPREADSHEET_TIMEZONE\<close> selects; \<open>filepath.Join\<close> and
  \<open>filepath.Dir\<close> of the platform.
\<close>

record env =
  callFails :: "event list \<Rightarrow> call \<Rightarrow> error option"
  cmdOutput :: "event list \<Rightarrow> call \<Rightarrow> string"
  driveFile :: "event list \<Rightarrow> string \<Rightarrow> string \<Rightarrow> drive_file"
  tempDirName :: "event list \<Rightarrow> string"
  walkVisits :: "event list \<Rightarrow> string \<Rightarrow> visit list"
  clockNow :: "event list \<Rightarrow> int"
  parseRFC3339 :: "string \<Rightarrow> int option"
  formatIn :: "int \<Rightarrow> string"
  filepathJoin :: "string \<Rightarrow> string \<Rightarrow> string"
  filepathDir :: "string \<Rightarrow> string"

text \<open>The state: the trace, and the rows of columns A:B of each spreadsheet.\<close>

record world =
  trace :: "event list"
  sheets :: "string \<Rightarrow> cell list list"

definition perform :: "env \<Rightarrow> call \<Rightarrow> world \<Rightarrow> error option \<times> world" where
  "perform E c w =
     (let r = callFails E (trace w) c
      in (r, w\<lparr>trace := trace w @ [(c, r = None)]\<rparr>))"

text \<open>\<open>cmd.Run\<close>, \<open>cmd.Output\<close> and \<open>cmd.CombinedOutput\<close>: the output comes back
  with the error, also when the command fails.\<close>

definition runCmd :: "env \<Rightarrow> string \<Rightarrow> string list \<Rightarrow> world \<Rightarrow> (string \<times> error option) \<times> world" where
  "runCmd E name args w =
     (case perform E (Exec name args) w of
        (r, w1) \<Rightarrow> ((cmdOutput E (trace w) (Exec name args), r), w1))"

definition filesGet :: "env \<Rightarrow> string \<Rightarrow> string \<Rightarrow> world \<Rightarrow> (error + drive_file) \<times> world" where
  "filesGet E fileID fieldMask w =
     (case perform E (FilesGet fileID fieldMask) w of
        (Some e, w1) \<Rightarrow> (Inl e, w1)
      | (None, w1) \<Rightarrow> (Inr (driveFile E (trace w) fileID fieldMask), w1))"

text \<open>The events a run added, and those of them that touch the remote store's files
  or the ledger.\<close>

definition newEvents :: "world \<Rightarrow> world \<Rightarrow> event list" where
  "newEvents w w' = drop (length (trace w)) (trace w')"

fun isDelete :: "call \<Rightarrow> bool" where
  "isDelete (FilesDelete i) = True"
| "isDelete c = False"

fun isLedger :: "call \<Rightarrow> bool" where
  "isLedger (ValuesGet s r) = True"
| "isLedger (ValuesUpdate s r v) = True"
| "isLedger (ValuesAppend s r v) = True"
| "isLedger c = False"

definition storeEvents :: "event list \<Rightarrow> event list" where
  "storeEvents evs = filter (\<lambda>e. isDelete (fst e) \<or> isLedger (fst e)) evs"

section \<open>The tracking ledger\<close>

text \<open>
  Modelled from the spec: the ledger client is an external service, of which the
  specification (section 6) gives \<open>readRange\<close>, \<open>updateCell\<close> and \<open>appendRow\<close>. A
  read returns the rows; an update of the cell named by a column letter and a row number
  (A1 notation, rows counted from 1) replaces that cell, filling up with empty rows and
  empty cells where the grid is shorter; an append adds the rows at the end. A cell reads
  back as the text written to it. Each of the three can fail, and then changes nothing; an
  update of a range that names no cell fails.
\<close>

definition digitVal :: "char \<Rightarrow> nat option" where
  "digitVal c = map_of (zip ''0123456789'' [0..<10]) c"

fun atoi :: "string \<Rightarrow> nat \<Rightarrow> nat option" where
  "atoi [] acc = Some acc"
| "atoi (c # cs) acc =
     (case digitVal c of None \<Rightarrow> None | Some d \<Rightarrow> atoi cs (acc * 10 + d))"

definition columnIndex :: "char \<Rightarrow> nat option" where
  "columnIndex c = map_of (zip ''ABCDEFGHIJKLMNOPQRSTUVWXYZ'' [0..<26]) c"

fun parseCellRef :: "string \<Rightarrow> (nat \<times> nat) option" where
  "parseCellRef [] = None"
| "parseCellRef (c # ds) =
     (case columnIndex c of
        None \<Rightarrow> None
      | Some col \<Rightarrow>
          (if ds = [] then None
           else (case atoi ds 0 of
                   None \<Rightarrow> None
                 | Some 0 \<Rightarrow> None
                 | Some (Suc r) \<Rightarrow> Some (r, col))))"

definition setCell :: "cell list list \<Rightarrow> nat \<Rightarrow> nat \<Rightarrow> cell \<Rightarrow> cell list list" where
  "setCell rows r c v =
     (let rows1 = rows @ replicate (Suc r - length rows) [];
          row = rows1 ! r;
          row1 = row @ replicate (Suc c - length row) (StringCell [])
      in rows1[r := row1[c := v]])"

definition valuesGet :: "env \<Rightarrow> string \<Rightarrow> string \<Rightarrow> world \<Rightarrow> (error + cell list list) \<times> world" where
  "valuesGet E spreadsheetID readRange w =
     (case perform E (ValuesGet spreadsheetID readRange) w of
        (Some e, w1) \<Rightarrow> (Inl e, w1)
      | (None, w1) \<Rightarrow> (Inr (sheets w spreadsheetID), w1))"

definition valuesUpdate :: "env \<Rightarrow> string \<Rightarrow> string \<Rightarrow> cell \<Rightarrow> world \<Rightarrow> error option \<times> world" where
  "valuesUpdate E spreadsheetID a1 v w =
     (case parseCellRef a1 of
        None \<Rightarrow>
          (Some (Error ''Unable to parse range''),
           w\<lparr>trace := trace w @ [(ValuesUpdate spreadsheetID a1 [[v]], False)]\<rparr>)
      | Some (r, c) \<Rightarrow>
          (case perform E (ValuesUpdate spreadsheetID a1 [[v]]) w of
             (Some e, w1) \<Rightarrow> (Some e, w1)
           | (None, w1) \<Rightarrow>
               (None, w1\<lparr>sheets := (sheets w1)
                  (spreadsheetID := setCell (sheets w1 spreadsheetID) r c v)\<rparr>)))"

definition valuesAppend :: "env \<Rightarrow> string \<Rightarrow> string \<Rightarrow> cell list \<Rightarrow> world \<Rightarrow> error option \<times> world" where
  "valuesAppend E spreadsheetID appendRange row w =
     (case perform E (ValuesAppend spreadsheetID appendRange [row]) w of
        (Some e, w1) \<Rightarrow> (Some e, w1)
      | (None, w1) \<Rightarrow>
          (None, w1\<lparr>sheets := (sheets w1)
             (spreadsheetID := sheets w1 spreadsheetID @ [row])\<rparr>))"

section \<open>The program\<close>

text \<open>Logging is left out: \<open>log.Printf\<close> writes to the log and changes nothing
  else.\<close>

definition minFileSize :: int where
  "minFileSize = 10 * 1024"

text \<open>A \<open>time.Duration\<close> is a signed 64-bit count of nanoseconds.\<close>

definition maxAgeForDeletion :: int where
  "maxAgeForDeletion = 10 * (60 * 1000000000)"

definition maxDuration :: int where
  "maxDuration = 2 ^ 63 - 1"

definition minDuration :: int where
  "minDuration = - (2 ^ 63)"

text \<open>\<open>time.Since(t)\<close> is \<open>time.Now().Sub(t)\<close>; \<open>Sub\<close> saturates at the ends of
  the range of a duration.\<close>

definition timeSince :: "env \<Rightarrow> world \<Rightarrow> int \<Rightarrow> int" where
  "timeSince E w t =
     (let d = clockNow E (trace w) - t
      in if d > maxDuration then maxDuration
         else if d < minDuration then minDuration
         else d)"

definition deleteSmallFile :: "env \<Rightarrow> drive_file \<Rightarrow> world \<Rightarrow> error option \<times> world" where
  "deleteSmallFile E f w =
     (case perform E (FilesDelete (file_Id f)) w of
        (Some e, w1) \<Rightarrow> (Some (Error (''failed to delete small file: '' @ errorMsg e)), w1)
      | (None, w1) \<Rightarrow> (None, w1))"

definition createTempDir :: "env \<Rightarrow> world \<Rightarrow> (error + string) \<times> world" where
  "createTempDir E w =
     (case perform E (MkdirTemp [] ''backup-*'') w of
        (Some e, w1) \<Rightarrow> (Inl (Error (''failed to create temp dir: '' @ errorMsg e)), w1)
      | (None, w1) \<Rightarrow> (Inr (tempDirName E (trace w)), w1))"

definition downloadFile :: "env \<Rightarrow> string \<Rightarrow> string \<Rightarrow> world \<Rightarrow> error option \<times> world" where
  "downloadFile E fileID destPath w =
     (case perform E (FilesDownload fileID) w of
        (Some e, w1) \<Rightarrow> (Some e, w1)
      | (None, w1) \<Rightarrow>
          (case perform E (OsCreate destPath) w1 of
             (Some e, w2) \<Rightarrow> (Some e, w2)
           | (None, w2) \<Rightarrow> perform E (IoCopy destPath) w2))"

definition extract7z :: "env \<Rightarrow> string \<Rightarrow> string \<Rightarrow> string \<Rightarrow> world \<Rightarrow> error option \<times> world" where
  "extract7z E archivePath destDir password w =
     (case runCmd E ''7z'' [''x'', ''-p'' @ password, archivePath, ''-o'' @ destDir] w of
        ((out, r), w1) \<Rightarrow> (r, w1))"

text \<open>
  The function \<open>findBakFile\<close> gives to \<open>filepath.Walk\<close>: it works on the variable
  \<open>bakFile\<close> and returns the error it was given. \<open>Walk\<close> stops at the first visit
  for which it returns an error, and returns that error.
\<close>

definition walkFn :: "visit \<Rightarrow> string \<Rightarrow> string \<times> error option" where
  "walkFn v bakFile =
     (case visit_err v of
        Some e \<Rightarrow> (bakFile, Some e)
      | None \<Rightarrow>
          (if hasSuffix (visit_name v) ''.bak'' then (visit_path v, None)
           else (bakFile, None)))"

fun walk :: "visit list \<Rightarrow> string \<Rightarrow> string \<times> error option" where
  "walk [] bakFile = (bakFile, None)"
| "walk (v # vs) bakFile =
     (case walkFn v bakFile of
        (bakFile1, Some e) \<Rightarrow> (bakFile1, Some e)
      | (bakFile1, None) \<Rightarrow> walk vs bakFile1)"

definition findBakFile :: "env \<Rightarrow> string \<Rightarrow> world \<Rightarrow> (error + string) \<times> world" where
  "findBakFile E dir w =
     (case walk (walkVisits E (trace w) dir) [] of
        (bakFile, err) \<Rightarrow>
          (let w1 = w\<lparr>trace := trace w @ [(Walk dir, err = None)]\<rparr>
           in case err of
                Some e \<Rightarrow> (Inl e, w1)
              | None \<Rightarrow>
                  (if bakFile = [] then (Inl (Error ''no .bak file found''), w1)
                   else (Inr bakFile, w1))))"

definition downloadAndExtract :: "env \<Rightarrow> drive_file \<Rightarrow> string \<Rightarrow> string \<Rightarrow> world \<Rightarrow> (error + string) \<times> world" where
  "downloadAndExtract E f tempDir password w =
     (let downloadedFile = filepathJoin E tempDir (file_Name f)
      in case downloadFile E (file_Id f) downloadedFile w of
           (Some e, w1) \<Rightarrow> (Inl (Error (''failed to download file: '' @ errorMsg e)), w1)
         | (None, w1) \<Rightarrow>
             (let extractDir = filepathJoin E tempDir ''extracted''
              in case extract7z E downloadedFile extractDir password w1 of
                   (Some e, w2) \<Rightarrow> (Inl (Error (''failed to extract 7z: '' @ errorMsg e)), w2)
                 | (None, w2) \<Rightarrow>
                     (case findBakFile E extractDir w2 of
                        (Inl e, w3) \<Rightarrow>
                          (Inl (Error (''failed to find .bak file: '' @ errorMsg e)), w3)
                      | (Inr bakFile, w3) \<Rightarrow> (Inr bakFile, w3))))"

text \<open>\<open>strings.SplitN(dbHost, "\\", 2)[1]\<close> is what follows the first backslash.\<close>

definition grantPermissions :: "env \<Rightarrow> string \<Rightarrow> string \<Rightarrow> world \<Rightarrow> world" where
  "grantPermissions E bakFile dbHost w =
     (let serviceAcct =
            (if CHR 0x5C \<in> set dbHost
             then ''NT SERVICE'' @ [CHR 0x5C] @ ''MSSQL$'' @
                    tl (dropWhile (\<lambda>c. c \<noteq> CHR 0x5C) dbHost)
             else ''NT SERVICE'' @ [CHR 0x5C] @ ''MSSQLSERVER'');
          w1 = snd (runCmd E ''icacls'' [bakFile, ''/grant'', serviceAcct @ '':F''] w);
          extractFolder = filepathDir E bakFile
      in snd (runCmd E ''icacls'' [extractFolder, ''/grant'', serviceAcct @ '':F'', ''/T''] w1))"

definition shouldDelete :: "env \<Rightarrow> drive_file \<Rightarrow> world \<Rightarrow> bool" where
  "shouldDelete E f w =
     (case parseRFC3339 E (file_CreatedTime f) of
        None \<Rightarrow> False
      | Some createdTime \<Rightarrow> timeSince E w createdTime \<ge> maxAgeForDeletion)"

definition formatCreatedTime :: "env \<Rightarrow> string \<Rightarrow> string" where
  "formatCreatedTime E createdTimeStr =
     (case parseRFC3339 E createdTimeStr of
        None \<Rightarrow> createdTimeStr
      | Some t \<Rightarrow> formatIn E t)"

definition getParentFolderName :: "env \<Rightarrow> drive_file \<Rightarrow> world \<Rightarrow> (error + string) \<times> world" where
  "getParentFolderName E f w =
     (case file_Parents f of
        parentID # ps \<Rightarrow>
          (case filesGet E parentID ''id, name'' w of
             (Inl e, w1) \<Rightarrow> (Inl e, w1)
           | (Inr pf, w1) \<Rightarrow> (Inr (file_Name pf), w1))
      | [] \<Rightarrow>
          (case filesGet E (file_Id f) ''parents'' w of
             (Inl e, w1) \<Rightarrow> (Inl e, w1)
           | (Inr fi, w1) \<Rightarrow>
               (case file_Parents fi of
                  p0 # ps \<Rightarrow>
                    (case filesGet E p0 ''name'' w1 of
                       (Inl e, w2) \<Rightarrow> (Inl e, w2)
                     | (Inr p, w2) \<Rightarrow> (Inr (file_Name p), w2))
                | [] \<Rightarrow> (Inr [], w1))))"

text \<open>
  The search of \<open>upsertSpreadsheetRow\<close> for \<open>kab\<close> in column A: the index of the
  first row that has a first cell, a string, equal to \<open>kab\<close> after trimming both;
  \<open>None\<close> stands for the \<open>rowIndex\<close> -1.
\<close>

fun rowMatches :: "string \<Rightarrow> cell list \<Rightarrow> bool" where
  "rowMatches kab (StringCell s # cs) = (trimSpace s = trimSpace kab)"
| "rowMatches kab row = False"

fun findRow :: "string \<Rightarrow> cell list list \<Rightarrow> nat \<Rightarrow> nat option" where
  "findRow kab [] i = None"
| "findRow kab (row # rows) i =
     (if rowMatches kab row then Some i else findRow kab rows (Suc i))"

definition upsertSpreadsheetRow :: "env \<Rightarrow> string \<Rightarrow> string \<Rightarrow> string \<Rightarrow> world \<Rightarrow> error option \<times> world" where
  "upsertSpreadsheetRow E spreadsheetID kab createdTime w =
     (case valuesGet E spreadsheetID ''A:B'' w of
        (Inl e, w1) \<Rightarrow> (Some (Error (''failed to read spreadsheet: '' @ errorMsg e)), w1)
      | (Inr vals, w1) \<Rightarrow>
          (case findRow kab vals 0 of
             Some rowIndex \<Rightarrow>
               (let a1 = ''B'' @ itoa (rowIndex + 1)
                in case valuesUpdate E spreadsheetID a1 (StringCell createdTime) w1 of
                     (Some e, w2) \<Rightarrow>
                       (Some (Error (''failed to update spreadsheet cell '' @ a1 @ '': '' @
                                     errorMsg e)), w2)
                   | (None, w2) \<Rightarrow> (None, w2))
           | None \<Rightarrow>
               (case valuesAppend E spreadsheetID ''A:B''
                       [StringCell kab, StringCell createdTime] w1 of
                  (Some e, w2) \<Rightarrow>
                    (Some (Error (''failed to append row to spreadsheet: '' @ errorMsg e)), w2)
                | (None, w2) \<Rightarrow> (None, w2))))"

definition deleteFileAndUpdateSpreadsheet :: "env \<Rightarrow> string \<Rightarrow> drive_file \<Rightarrow> world \<Rightarrow> error option \<times> world" where
  "deleteFileAndUpdateSpreadsheet E spreadsheetID f w =
     (case perform E (FilesDelete (file_Id f)) w of
        (Some e, w1) \<Rightarrow> (Some (Error (''failed to delete Drive file: '' @ errorMsg e)), w1)
      | (None, w1) \<Rightarrow>
          (case getParentFolderName E f w1 of
             (Inl pErr, w2) \<Rightarrow> (None, w2)
           | (Inr parentName, w2) \<Rightarrow>
               (let createdStr = formatCreatedTime E (file_CreatedTime f)
                in case upsertSpreadsheetRow E spreadsheetID parentName createdStr w2 of
                     (uErr, w3) \<Rightarrow> (None, w3))))"

text \<open>The arguments every \<open>sqlcmd\<close> call of \<open>restoreDB\<close> starts with.\<close>

definition sqlArgs :: "string \<Rightarrow> string \<Rightarrow> string \<Rightarrow> string list" where
  "sqlArgs host user pass =
     [''-S'', host, ''-d'', ''master''] @
     (if user = [] \<and> pass = [] then [''-E''] else [''-U'', user, ''-P'', pass])"

text \<open>
  The loop of \<open>restoreDB\<close> over the lines of the file list: one line changes the pair
  (\<open>dataLogical\<close>, \<open>logLogical\<close>).
\<close>

definition fileListLine :: "string \<times> string \<Rightarrow> string \<Rightarrow> string \<times> string" where
  "fileListLine names l0 =
     (let l = trimSpace l0
      in if l = [] then names
         else (let cols = map trimSpace (split (CHR ''|'') l)
               in if length cols < 3 then names
                  else (let typ = toUpper (cols ! 2)
                        in if hasPrefix typ ''L'' then (fst names, cols ! 0)
                           else (cols ! 0, snd names))))"

definition fileListNames :: "string \<Rightarrow> string \<times> string" where
  "fileListNames out =
     (let listOut = trimSpace out
      in if listOut \<noteq> [] then foldl fileListLine ([], []) (split (CHR 0x0A) listOut)
         else ([], []))"

definition singleUserQuery :: "string \<Rightarrow> string" where
  "singleUserQuery dbName =
     ''ALTER DATABASE '' @ dbName @ '' SET SINGLE_USER WITH ROLLBACK IMMEDIATE;''"

definition restoreQuery :: "string \<Rightarrow> string \<Rightarrow> string \<Rightarrow> string \<Rightarrow> string \<Rightarrow> string \<Rightarrow> string" where
  "restoreQuery dbName bakPath dataLogical mdfTarget logLogical ldfTarget =
     ''RESTORE DATABASE '' @ dbName @ '' FROM DISK='' @ quoted bakPath @
     '' WITH REPLACE, MOVE '' @ quoted dataLogical @ '' TO '' @ quoted mdfTarget @
     '', MOVE '' @ quoted logLogical @ '' TO '' @ quoted ldfTarget"

definition multiUserQuery :: "string \<Rightarrow> string" where
  "multiUserQuery dbName = ''ALTER DATABASE '' @ dbName @ '' SET MULTI_USER;''"

text \<open>
  The pieces of \<open>restoreDB\<close>: the arguments of the file list query and of the data
  path query, the data path it settles on, and the arguments of the \<open>RESTORE\<close>
  command, with \<open>dbName\<close> and \<open>dbName + "_log"\<close> where the file list gave no name.
\<close>

definition fileListArgs :: "string \<Rightarrow> string \<Rightarrow> string \<Rightarrow> string \<Rightarrow> string list" where
  "fileListArgs host user pass bakPath =
     sqlArgs host user pass @
     [''-h'', ''-1'', ''-W'', ''-s'', ''|'', ''-Q'',
      ''SET NOCOUNT ON; RESTORE FILELISTONLY FROM DISK='' @ quoted bakPath]"

definition dataPathArgs :: "string \<Rightarrow> string \<Rightarrow> string \<Rightarrow> string list" where
  "dataPathArgs host user pass =
     sqlArgs host user pass @
     [''-h'', ''-1'', ''-W'', ''-Q'',
      ''SET NOCOUNT ON; SELECT SERVERPROPERTY('' @ quoted ''InstanceDefaultDataPath'' @ '')'']"

definition resolveDataPath :: "env \<Rightarrow> string \<Rightarrow> string \<Rightarrow> string" where
  "resolveDataPath E out bakPath =
     (let dataPath = trimSpace out
      in if dataPath = [] \<or> equalFold dataPath ''NULL'' then filepathDir E bakPath
         else dataPath)"

definition restoreArgs :: "env \<Rightarrow> string \<Rightarrow> string \<Rightarrow> string \<Rightarrow> string \<Rightarrow> string \<Rightarrow> string \<times> string \<Rightarrow> string \<Rightarrow> string list" where
  "restoreArgs E host user pass dbName bakPath names dataPath =
     (let dataLogical = (if fst names = [] then dbName else fst names);
          logLogical = (if snd names = [] then dbName @ ''_log'' else snd names);
          mdfTarget = filepathJoin E dataPath (dbName @ ''.mdf'');
          ldfTarget = filepathJoin E dataPath (dbName @ ''_log.ldf'')
      in sqlArgs host user pass @
         [''-Q'', restoreQuery dbName bakPath dataLogical mdfTarget logLogical ldfTarget])"

text \<open>
  \<open>restoreDB\<close>. The error of the data path query is logged and dropped, as is the
  error of the last command.
\<close>

definition restoreDB :: "env \<Rightarrow> string \<Rightarrow> string \<Rightarrow> string \<Rightarrow> string \<Rightarrow> string \<Rightarrow> world \<Rightarrow> error option \<times> world" where
  "restoreDB E host user pass dbName bakPath w =
     (case runCmd E ''sqlcmd'' (fileListArgs host user pass bakPath) w of
        ((out, Some e), w1) \<Rightarrow>
          (Some (Error (''failed to run RESTORE FILELISTONLY: '' @ errorMsg e)), w1)
      | ((out, None), w1) \<Rightarrow>
          (case runCmd E ''sqlcmd'' (dataPathArgs host user pass) w1 of
             ((out2, err2), w2) \<Rightarrow>
               (case runCmd E ''sqlcmd''
                       (sqlArgs host user pass @ [''-Q'', singleUserQuery dbName]) w2 of
                  ((out3, Some e), w3) \<Rightarrow>
                    (Some (Error (''failed to set database to single user: '' @ errorMsg e)),
                     w3)
                | ((out3, None), w3) \<Rightarrow>
                    (case runCmd E ''sqlcmd''
                            (restoreArgs E host user pass dbName bakPath (fileListNames out)
                               (resolveDataPath E out2 bakPath)) w3 of
                       ((out4, Some e), w4) \<Rightarrow>
                         (Some (Error (''restore failed: '' @ errorMsg e)), w4)
                     | ((out4, None), w4) \<Rightarrow>
                         (case runCmd E ''sqlcmd''
                                 (sqlArgs host user pass @ [''-Q'', multiUserQuery dbName])
                                 w4 of
                            ((out5, err5), w5) \<Rightarrow> (None, w5))))))"

definition runUpdateQuery :: "env \<Rightarrow> string \<Rightarrow> string \<Rightarrow> string \<Rightarrow> string \<Rightarrow> string \<Rightarrow> world \<Rightarrow> error option \<times> world" where
  "runUpdateQuery E host user pass dbName query w =
     (let args = [''-S'', host, ''-d'', dbName] @
                 (if user = [] \<and> pass = [] then [''-E''] else [''-U'', user, ''-P'', pass]) @
                 [''-Q'', query]
      in case runCmd E ''sqlcmd'' args w of
           ((out, Some e), w1) \<Rightarrow> (Some e, w1)
         | ((out, None), w1) \<Rightarrow> (None, w1))"

text \<open>
  \<open>processFile\<close>. The deferred \<open>os.RemoveAll(tempDir)\<close> runs last on every path
  that created the directory; its result is dropped.
\<close>

definition processFile :: "env \<Rightarrow> string \<Rightarrow> drive_file \<Rightarrow> string \<Rightarrow> string \<Rightarrow> string \<Rightarrow> string \<Rightarrow> string \<Rightarrow> string \<Rightarrow> world \<Rightarrow> error option \<times> world" where
  "processFile E spreadsheetID f dbHost dbUser dbPass dbName password updateQuery w =
     (if file_Size f < minFileSize then deleteSmallFile E f w
      else
        (case createTempDir E w of
           (Inl e, w1) \<Rightarrow> (Some e, w1)
         | (Inr tempDir, w1) \<Rightarrow>
             (case
                (case downloadAndExtract E f tempDir password w1 of
                   (Inl e, w2) \<Rightarrow>
                     (if shouldDelete E f w2
                      then (Some e, snd (deleteFileAndUpdateSpreadsheet E spreadsheetID f w2))
                      else (Some e, w2))
                 | (Inr bakFile, w2) \<Rightarrow>
                     (case restoreDB E dbHost dbUser dbPass dbName bakFile
                             (grantPermissions E bakFile dbHost w2) of
                        (Some e, w3) \<Rightarrow> (Some e, w3)
                      | (None, w3) \<Rightarrow>
                          (case runUpdateQuery E dbHost dbUser dbPass dbName updateQuery w3 of
                             (Some e, w4) \<Rightarrow> (Some e, w4)
                           | (None, w4) \<Rightarrow>
                               (case deleteFileAndUpdateSpreadsheet E spreadsheetID f w4 of
                                  (Some e, w5) \<Rightarrow> (Some e, w5)
                                | (None, w5) \<Rightarrow> (None, w5)))))
              of (r, w6) \<Rightarrow> (r, snd (perform E (RemoveAll tempDir) w6)))))"

section \<open>The events of a run\<close>

text \<open>The ledger calls and the deletions among some events; a world that only adds
  events to another.\<close>

definition ledgerEvents :: "event list \<Rightarrow> event list" where
  "ledgerEvents evs = filter (\<lambda>e. isLedger (fst e)) evs"

definition deleteEvents :: "event list \<Rightarrow> event list" where
  "deleteEvents evs = filter (\<lambda>e. isDelete (fst e)) evs"

definition extends :: "world \<Rightarrow> world \<Rightarrow> bool" where
  "extends w w' = (take (length (trace w)) (trace w') = trace w)"

text \<open>
  A run is quiet when it only adds events, none of them a deletion in the remote store
  or a call of the ledger, and leaves the ledger as it was.
\<close>

definition quiet :: "world \<Rightarrow> world \<Rightarrow> bool" where
  "quiet w w' = (take (length (trace w)) (trace w') = trace w
                 \<and> storeEvents (newEvents w w') = [] \<and> sheets w' = sheets w)"

section \<open>The specification's words\<close>

text \<open>
  The file list as the specification words it: a row is a line that is not blank and has
  at least three columns between the bars; its logical name is the first column; it is a
  log row when the third column, in upper case, starts with \<open>L\<close>, a data row otherwise;
  the last row of a kind gives the name of that kind.
\<close>

definition manifestColumns :: "string \<Rightarrow> string list" where
  "manifestColumns l = map trimSpace (split (CHR ''|'') (trimSpace l))"

definition manifestRow :: "string \<Rightarrow> bool" where
  "manifestRow l = (trimSpace l \<noteq> [] \<and> 3 \<le> length (manifestColumns l))"

definition isLogRow :: "string \<Rightarrow> bool" where
  "isLogRow l = hasPrefix (toUpper (manifestColumns l ! 2)) ''L''"

definition lastLogicalName :: "string \<Rightarrow> string list \<Rightarrow> string" where
  "lastLogicalName name rows = (if rows = [] then name else manifestColumns (last rows) ! 0)"

definition manifestNames :: "string list \<Rightarrow> string \<times> string" where
  "manifestNames ls =
     (lastLogicalName [] (filter (\<lambda>l. manifestRow l \<and> \<not> isLogRow l) ls),
      lastLogicalName [] (filter (\<lambda>l. manifestRow l \<and> isLogRow l) ls))"

text \<open>The visits of an entry whose name ends in \<open>.bak\<close>.\<close>

definition bakVisits :: "visit list \<Rightarrow> visit list" where
  "bakVisits vs = filter (\<lambda>v. hasSuffix (visit_name v) ''.bak'') vs"

text \<open>
  The ledger as the specification words it: the rows of a key are those whose column A,
  trimmed, is the trimmed key; an upsert overwrites column B of the first of them in
  place, or appends the row of key and time stamp when there is none.
\<close>

definition keyRows :: "string \<Rightarrow> cell list list \<Rightarrow> cell list list" where
  "keyRows kab rows = filter (rowMatches kab) rows"

definition columnB :: "cell list \<Rightarrow> cell option" where
  "columnB row = (case row of a # b # rest \<Rightarrow> Some b | _ \<Rightarrow> None)"

definition setB :: "cell list \<Rightarrow> cell \<Rightarrow> cell list" where
  "setB row v = (row @ replicate (2 - length row) (StringCell []))[1 := v]"

definition upsertedRows :: "string \<Rightarrow> string \<Rightarrow> cell list list \<Rightarrow> cell list list" where
  "upsertedRows kab createdTime rows =
     (case findRow kab rows 0 of
        Some i \<Rightarrow> rows[i := setB (rows ! i) (StringCell createdTime)]
      | None \<Rightarrow> rows @ [[StringCell kab, StringCell createdTime]])"

section \<open>Sample inputs\<close>

text \<open>
  A candidate file, a world with an empty trace and empty ledgers, and an environment in
  which every call succeeds: the archive holds one backup file, the file was created
  15 minutes before the clock's time, paths are joined with a slash, and the directory of
  a path is what stands before its last slash.
\<close>

definition demoFile :: drive_file where
  "demoFile = \<lparr>file_Id = ''f1'', file_Name = ''Susenas2025M_01.7z'',
     file_CreatedTime = ''2025-03-01T00:00:00Z'', file_Size = 2048, file_Parents = [''p1'']\<rparr>"

definition demoEnv :: env where
  "demoEnv = \<lparr>
     callFails = (\<lambda>h c. None),
     cmdOutput = (\<lambda>h c. []),
     driveFile = (\<lambda>h i m. \<lparr>file_Id = i, file_Name = ''Kab01'', file_CreatedTime = [],
                    file_Size = 0, file_Parents = []\<rparr>),
     tempDirName = (\<lambda>h. ''/tmp/backup-1''),
     walkVisits = (\<lambda>h d.
       [\<lparr>visit_path = d, visit_name = ''extracted'', visit_isDir = True, visit_err = None\<rparr>,
        \<lparr>visit_path = d @ ''/db.bak'', visit_name = ''db.bak'', visit_isDir = False,
           visit_err = None\<rparr>]),
     clockNow = (\<lambda>h. 900000000000),
     parseRFC3339 = (\<lambda>s. if s = ''2025-03-01T00:00:00Z'' then Some 0 else None),
     formatIn = (\<lambda>t. ''3/1/2025 00:00:00''),
     filepathJoin = (\<lambda>a b. a @ ''/'' @ b),
     filepathDir = (\<lambda>p. rev (tl (dropWhile (\<lambda>c. c \<noteq> CHR ''/'') (rev p))))\<rparr>"

definition world0 :: world where
  "world0 = \<lparr>trace = [], sheets = (\<lambda>s. [])\<rparr>"

text \<open>The same file above the size threshold, and with a creation time that does not
  parse.\<close>

definition bigFile :: drive_file where
  "bigFile = demoFile\<lparr>file_Size := 20480\<rparr>"

definition oddFile :: drive_file where
  "oddFile = bigFile\<lparr>file_CreatedTime := ''yesterday''\<rparr>"

text \<open>Environments in which the calls of one kind fail with "exit status 1", and one
  in which the file is 5 minutes old and the extraction fails.\<close>

definition failing :: "(call \<Rightarrow> bool) \<Rightarrow> env" where
  "failing P = demoEnv\<lparr>callFails := (\<lambda>h c. if P c then Some (Error ''exit status 1'') else None)\<rparr>"

definition is7z :: "call \<Rightarrow> bool" where
  "is7z c = (case c of Exec n a \<Rightarrow> n = ''7z'' | _ \<Rightarrow> False)"

definition isFilesGet :: "call \<Rightarrow> bool" where
  "isFilesGet c = (case c of FilesGet i m \<Rightarrow> True | _ \<Rightarrow> False)"

definition isRestoreCmd :: "call \<Rightarrow> bool" where
  "isRestoreCmd c = (case c of Exec n a \<Rightarrow> n = ''sqlcmd'' \<and> hasPrefix (last a) ''RESTORE DATABASE'' | _ \<Rightarrow> False)"

definition isSingleUserCmd :: "call \<Rightarrow> bool" where
  "isSingleUserCmd c =
     (case c of Exec n a \<Rightarrow> n = ''sqlcmd'' \<and> last a = singleUserQuery ''db'' | _ \<Rightarrow> False)"

definition isMultiUserCmd :: "call \<Rightarrow> bool" where
  "isMultiUserCmd c =
     (case c of Exec n a \<Rightarrow> n = ''sqlcmd'' \<and> last a = multiUserQuery ''db'' | _ \<Rightarrow> False)"

definition youngEnv :: env where
  "youngEnv = (failing is7z)\<lparr>clockNow := (\<lambda>h. 300000000000)\<rparr>"

text \<open>An environment in which the data path query fails after printing an error
  message, as \<open>sqlcmd\<close> does on its standard output.\<close>

definition isDataPathCmd :: "call \<Rightarrow> bool" where
  "isDataPathCmd c = (c = Exec ''sqlcmd'' (dataPathArgs ''srv'' [] []))"

definition noisyEnv :: env where
  "noisyEnv = demoEnv\<lparr>
     callFails := (\<lambda>h c. if isDataPathCmd c then Some (Error ''exit status 1'') else None),
     cmdOutput := (\<lambda>h c. if isDataPathCmd c
                           then ''Sqlcmd: Error: Login timeout expired.'' @ [CHR 0x0D, CHR 0x0A]
                           else [])\<rparr>"

text \<open>A walk that meets a directory it cannot read after a backup file, and one that
  meets a directory named like a backup file.\<close>

definition deniedEnv :: env where
  "deniedEnv = demoEnv\<lparr>walkVisits := (\<lambda>h d.
     [\<lparr>visit_path = d, visit_name = ''extracted'', visit_isDir = True, visit_err = None\<rparr>,
      \<lparr>visit_path = d @ ''/a.bak'', visit_name = ''a.bak'', visit_isDir = False,
         visit_err = None\<rparr>,
      \<lparr>visit_path = d @ ''/sub'', visit_name = ''sub'', visit_isDir = True,
         visit_err = Some (Error ''permission denied'')\<rparr>])\<rparr>"

definition bakDirEnv :: env where
  "bakDirEnv = demoEnv\<lparr>walkVisits := (\<lambda>h d.
     [\<lparr>visit_path = d, visit_name = ''extracted'', visit_isDir = True, visit_err = None\<rparr>,
      \<lparr>visit_path = d @ ''/a.bak'', visit_name = ''a.bak'', visit_isDir = False,
         visit_err = None\<rparr>,
      \<lparr>visit_path = d @ ''/old.bak'', visit_name = ''old.bak'', visit_isDir = True,
         visit_err = None\<rparr>])\<rparr>"

text \<open>The output of a file list query: a data row, a blank line, a line without
  columns and a log row, each ended by a carriage return and a line feed.\<close>

definition demoManifest :: string where
  "demoManifest =
     ''DataLog|/x/a.mdf|D|1'' @ [CHR 0x0D, CHR 0x0A] @
     [CHR 0x0D, CHR 0x0A] @
     ''no columns'' @ [CHR 0x0D, CHR 0x0A] @
     '' DataLog_log | /x/a.ldf | l '' @ [CHR 0x0D, CHR 0x0A]"

text \<open>An environment in which the file list query of \<open>/t/db.bak\<close> on \<open>srv\<close>
  prints that output, and every other command prints nothing.\<close>

definition manifestEnv :: env where
  "manifestEnv = demoEnv\<lparr>cmdOutput := (\<lambda>h c.
     if c = Exec ''sqlcmd'' (fileListArgs ''srv'' [] [] ''/t/db.bak'') then demoManifest
     else [])\<rparr>"

text \<open>A ledger with two rows for one key, and one with a padded key and no time
  stamp.\<close>

definition dupWorld :: world where
  "dupWorld = \<lparr>trace = [], sheets = (\<lambda>s. [[StringCell ''Kab01'', StringCell ''old''],
                                          [StringCell ''Kab01'', StringCell ''older'']])\<rparr>"

definition oneWorld :: world where
  "oneWorld = \<lparr>trace = [], sheets = (\<lambda>s. [[StringCell ''Kab00'', StringCell ''x''],
                                          [StringCell '' Kab01 '']])\<rparr>"

section \<open>Trimming, step by step\<close>

text \<open>
  A string that starts (ends) with a byte that starts (ends) no white space rune is not
  trimmed on that side; a white space byte of ASCII on a side is dropped.
\<close>

lemma hasPrefix_Cons: "hasPrefix (c # s) (d # r) \<longleftrightarrow> c = d \<and> hasPrefix s r"
  by (simp add: hasPrefix_def)

lemma hasPrefix_Nil: "hasPrefix s []"
  by (simp add: hasPrefix_def)

lemma leadingSpace_ascii:
  assumes "c \<in> set asciiSpaces"
  shows "leadingSpace (c # s) = 1"
proof -
  from assms consider "c = CHR 0x09" | "c = CHR 0x0A" | "c = CHR 0x0B" | "c = CHR 0x0C"
    | "c = CHR 0x0D" | "c = CHR 0x20"
    by (auto simp: asciiSpaces_def)
  then show ?thesis
    by cases (simp_all add: leadingSpace_def spaceRunes_def hasPrefix_Cons hasPrefix_Nil)
qed

lemma leadingSpace_none:
  assumes "c \<notin> set (map hd spaceRunes)"
  shows "leadingSpace (c # s) = 0"
proof -
  have "\<not> hasPrefix (c # s) r" if r: "r \<in> set spaceRunes" for r
  proof
    assume p: "hasPrefix (c # s) r"
    from r have "r \<noteq> []" by (auto simp: spaceRunes_def)
    then obtain d r' where "r = d # r'" by (cases r) auto
    with p have "hd r = c" by (simp add: hasPrefix_Cons)
    with r assms show False by force
  qed
  then have "find (hasPrefix (c # s)) spaceRunes = None"
    by (simp add: find_None_iff)
  then show ?thesis by (simp add: leadingSpace_def)
qed

lemma hasSuffix_last:
  assumes "r \<noteq> []" and "hasSuffix s r"
  shows "last r = last s"
proof -
  from assms(2) have "drop (length s - length r) s = r"
    by (simp add: hasSuffix_def)
  then have "s = take (length s - length r) s @ r"
    by (metis append_take_drop_id)
  then have "last s = last (take (length s - length r) s @ r)" by simp
  with assms(1) show ?thesis by simp
qed

lemma hasSuffix_single:
  assumes "s \<noteq> []"
  shows "hasSuffix s [c] \<longleftrightarrow> last s = c"
proof
  assume "hasSuffix s [c]"
  then show "last s = c" using hasSuffix_last [of "[c]" s] by simp
next
  assume "last s = c"
  with assms have "s = butlast s @ [c]"
    using append_butlast_last_id [of s] by simp
  then have "drop (length (butlast s)) s = [c]"
    by (metis append_eq_conv_conj)
  with assms show "hasSuffix s [c]"
    by (simp add: hasSuffix_def Suc_le_eq)
qed

lemma trailingSpace_ascii:
  assumes "s \<noteq> []" and "last s \<in> set asciiSpaces"
  shows "trailingSpace s = 1"
proof -
  from assms(2) consider "last s = CHR 0x09" | "last s = CHR 0x0A" | "last s = CHR 0x0B"
    | "last s = CHR 0x0C" | "last s = CHR 0x0D" | "last s = CHR 0x20"
    by (auto simp: asciiSpaces_def)
  then show ?thesis
    by cases
       (simp_all add: trailingSpace_def spaceRunes_def hasSuffix_single [OF assms(1)])
qed

lemma trailingSpace_none:
  assumes "s \<noteq> []" and "last s \<notin> set (map last spaceRunes)"
  shows "trailingSpace s = 0"
proof -
  have "\<not> hasSuffix s r" if r: "r \<in> set spaceRunes" for r
  proof
    assume p: "hasSuffix s r"
    from r have "r \<noteq> []" by (auto simp: spaceRunes_def)
    from hasSuffix_last [OF this p] have "last s = last r" by simp
    moreover from r have "last r \<in> last ` set spaceRunes" by (rule imageI)
    ultimately show False using assms(2) by simp
  qed
  then have "find (hasSuffix s) spaceRunes = None"
    by (simp add: find_None_iff)
  then show ?thesis by (simp add: trailingSpace_def)
qed

lemma trimLeft_Nil: "trimLeft [] = []"
  by (subst trimLeft.simps) (simp add: leadingSpace_def spaceRunes_def hasPrefix_def)

lemma trimLeft_skip: "c \<in> set asciiSpaces \<Longrightarrow> trimLeft (c # s) = trimLeft s"
  by (subst trimLeft.simps) (simp add: leadingSpace_ascii)

lemma trimLeft_stop: "c \<notin> set (map hd spaceRunes) \<Longrightarrow> trimLeft (c # s) = c # s"
  by (subst trimLeft.simps) (simp add: leadingSpace_none)

lemma trimRight_Nil: "trimRight [] = []"
  by (subst trimRight.simps) (simp add: trailingSpace_def spaceRunes_def hasSuffix_def)

lemma trimRight_skip:
  "s \<noteq> [] \<Longrightarrow> last s \<in> set asciiSpaces \<Longrightarrow> trimRight s = trimRight (butlast s)"
  by (subst trimRight.simps) (simp add: trailingSpace_ascii butlast_conv_take)

lemma trimRight_stop:
  "s \<noteq> [] \<Longrightarrow> last s \<notin> set (map last spaceRunes) \<Longrightarrow> trimRight s = s"
  by (subst trimRight.simps) (simp add: trailingSpace_none)

lemmas trim_eval = trimSpace_def trimLeft_Nil trimLeft_skip trimLeft_stop trimRight_Nil
  trimRight_skip trimRight_stop asciiSpaces_def spaceRunes_def

section \<open>How the steps change the world\<close>

lemma perform_None:
  "callFails E (trace w) c = None \<Longrightarrow>
     perform E c w = (None, w\<lparr>trace := trace w @ [(c, True)]\<rparr>)"
  by (simp add: perform_def)

lemma perform_Some:
  "callFails E (trace w) c = Some e \<Longrightarrow>
     perform E c w = (Some e, w\<lparr>trace := trace w @ [(c, False)]\<rparr>)"
  by (simp add: perform_def)

lemma perform_world:
  "snd (perform E c w) = w\<lparr>trace := trace w @ [(c, callFails E (trace w) c = None)]\<rparr>"
  by (simp add: perform_def Let_def)

lemma quiet_iff:
  "quiet w w' \<longleftrightarrow> (\<exists>evs. trace w' = trace w @ evs \<and> storeEvents evs = []) \<and> sheets w' = sheets w"
proof
  assume q: "quiet w w'"
  then have "trace w' = trace w @ newEvents w w'"
    unfolding quiet_def newEvents_def by (metis append_take_drop_id)
  with q show "(\<exists>evs. trace w' = trace w @ evs \<and> storeEvents evs = []) \<and> sheets w' = sheets w"
    unfolding quiet_def by blast
next
  assume "(\<exists>evs. trace w' = trace w @ evs \<and> storeEvents evs = []) \<and> sheets w' = sheets w"
  then show "quiet w w'"
    by (auto simp: quiet_def newEvents_def)
qed

lemma quiet_refl: "quiet w w"
  by (simp add: quiet_iff storeEvents_def)

lemma quiet_trans: "quiet w w1 \<Longrightarrow> quiet w1 w2 \<Longrightarrow> quiet w w2"
  unfolding quiet_iff by (auto simp: storeEvents_def)

lemma quiet_perform:
  "perform E c w = (r, w') \<Longrightarrow> \<not> isDelete c \<Longrightarrow> \<not> isLedger c \<Longrightarrow> quiet w w'"
  by (auto simp: quiet_iff perform_def Let_def storeEvents_def)

lemma quiet_runCmd: "runCmd E name args w = (r, w') \<Longrightarrow> quiet w w'"
  by (auto simp: runCmd_def split: prod.splits dest: quiet_perform)

lemma quiet_createTempDir: "createTempDir E w = (r, w') \<Longrightarrow> quiet w w'"
  by (auto simp: createTempDir_def split: prod.splits option.splits dest: quiet_perform)

lemma quiet_downloadFile: "downloadFile E fileID destPath w = (r, w') \<Longrightarrow> quiet w w'"
  unfolding downloadFile_def
  by (auto split: prod.splits option.splits dest!: quiet_perform intro: quiet_trans)

lemma quiet_extract7z: "extract7z E archivePath destDir password w = (r, w') \<Longrightarrow> quiet w w'"
  by (auto simp: extract7z_def split: prod.splits dest: quiet_runCmd)

lemma quiet_findBakFile: "findBakFile E dir w = (r, w') \<Longrightarrow> quiet w w'"
  by (auto simp: findBakFile_def Let_def quiet_iff storeEvents_def
           split: prod.splits option.splits if_splits)

lemma quiet_downloadAndExtract:
  "downloadAndExtract E f tempDir password w = (r, w') \<Longrightarrow> quiet w w'"
  unfolding downloadAndExtract_def Let_def
  by (auto split: prod.splits option.splits sum.splits
           dest!: quiet_downloadFile quiet_extract7z quiet_findBakFile intro: quiet_trans)

lemma quiet_grantPermissions: "quiet w (grantPermissions E bakFile dbHost w)"
proof -
  have step: "\<And>n a v. quiet v (snd (runCmd E n a v))"
    by (rule quiet_runCmd [OF prod.collapse [symmetric]])
  show ?thesis
    unfolding grantPermissions_def Let_def
    by (rule quiet_trans [OF step step])
qed

lemma quiet_runUpdateQuery:
  "runUpdateQuery E host user pass dbName query w = (r, w') \<Longrightarrow> quiet w w'"
  unfolding runUpdateQuery_def Let_def
  by (auto split: prod.splits option.splits dest!: quiet_runCmd)

lemma restoreDB_steps:
  assumes "runCmd E ''sqlcmd'' (fileListArgs host user pass bakPath) w = ((out, e1), w1)"
    and "runCmd E ''sqlcmd'' (dataPathArgs host user pass) w1 = ((out2, e2), w2)"
    and "runCmd E ''sqlcmd'' (sqlArgs host user pass @ [''-Q'', singleUserQuery dbName]) w2
           = ((out3, e3), w3)"
    and "runCmd E ''sqlcmd'' (restoreArgs E host user pass dbName bakPath (fileListNames out)
             (resolveDataPath E out2 bakPath)) w3 = ((out4, e4), w4)"
    and "runCmd E ''sqlcmd'' (sqlArgs host user pass @ [''-Q'', multiUserQuery dbName]) w4
           = ((out5, e5), w5)"
  shows "restoreDB E host user pass dbName bakPath w =
     (case e1 of
        Some e \<Rightarrow> (Some (Error (''failed to run RESTORE FILELISTONLY: '' @ errorMsg e)), w1)
      | None \<Rightarrow>
         (case e3 of
            Some e \<Rightarrow> (Some (Error (''failed to set database to single user: '' @ errorMsg e)), w3)
          | None \<Rightarrow>
             (case e4 of
                Some e \<Rightarrow> (Some (Error (''restore failed: '' @ errorMsg e)), w4)
              | None \<Rightarrow> (None, w5))))"
  unfolding restoreDB_def using assms by (simp split: option.splits)

lemma quiet_restoreDB:
  assumes "restoreDB E host user pass dbName bakPath w = (r, w')"
  shows "quiet w w'"
proof -
  obtain out e1 w1 where s1:
    "runCmd E ''sqlcmd'' (fileListArgs host user pass bakPath) w = ((out, e1), w1)"
    by (metis prod.exhaust)
  obtain out2 e2 w2 where s2:
    "runCmd E ''sqlcmd'' (dataPathArgs host user pass) w1 = ((out2, e2), w2)"
    by (metis prod.exhaust)
  obtain out3 e3 w3 where s3:
    "runCmd E ''sqlcmd'' (sqlArgs host user pass @ [''-Q'', singleUserQuery dbName]) w2
       = ((out3, e3), w3)"
    by (metis prod.exhaust)
  obtain out4 e4 w4 where s4:
    "runCmd E ''sqlcmd'' (restoreArgs E host user pass dbName bakPath (fileListNames out)
             (resolveDataPath E out2 bakPath)) w3 = ((out4, e4), w4)"
    by (metis prod.exhaust)
  obtain out5 e5 w5 where s5:
    "runCmd E ''sqlcmd'' (sqlArgs host user pass @ [''-Q'', multiUserQuery dbName]) w4
       = ((out5, e5), w5)"
    by (metis prod.exhaust)
  have q1: "quiet w w1" using s1 by (rule quiet_runCmd)
  have q3: "quiet w w3" using q1 s2 s3 by (blast intro: quiet_trans quiet_runCmd)
  have q4: "quiet w w4" using q3 s4 by (blast intro: quiet_trans quiet_runCmd)
  have q5: "quiet w w5" using q4 s5 by (blast intro: quiet_trans quiet_runCmd)
  from assms restoreDB_steps [OF s1 s2 s3 s4 s5] q1 q3 q4 q5 show ?thesis
    by (auto split: option.splits)
qed

lemma quiet_RemoveAll: "quiet w (snd (perform E (RemoveAll d) w))"
  by (rule quiet_perform [OF prod.collapse [symmetric]]) simp_all

lemma processFile_after_extract:
  assumes "\<not> file_Size f < minFileSize"
    and "createTempDir E w = (Inr tempDir, w1)"
    and "downloadAndExtract E f tempDir password w1 = (Inr bakFile, w2)"
    and "restoreDB E dbHost dbUser dbPass dbName bakFile (grantPermissions E bakFile dbHost w2)
           = (r3, w3)"
    and "runUpdateQuery E dbHost dbUser dbPass dbName updateQuery w3 = (r4, w4)"
    and "deleteFileAndUpdateSpreadsheet E spreadsheetID f w4 = (r5, w5)"
  shows "processFile E spreadsheetID f dbHost dbUser dbPass dbName password updateQuery w =
     (case r3 of
        Some e \<Rightarrow> (Some e, snd (perform E (RemoveAll tempDir) w3))
      | None \<Rightarrow>
          (case r4 of
             Some e \<Rightarrow> (Some e, snd (perform E (RemoveAll tempDir) w4))
           | None \<Rightarrow> (r5, snd (perform E (RemoveAll tempDir) w5))))"
  using assms by (cases r3; cases r4; cases r5; simp add: processFile_def)

lemma pair_snd: "fst p = a \<Longrightarrow> p = (a, snd p)"
  by (cases p) simp

lemmas demo_defs = demoFile_def demoEnv_def world0_def bigFile_def failing_def isRestoreCmd_def

lemma extends_iff: "extends w w' \<longleftrightarrow> (\<exists>evs. trace w' = trace w @ evs)"
  unfolding extends_def by (metis append_eq_conv_conj append_take_drop_id)

lemma extends_newEvents: "extends w w' \<Longrightarrow> trace w' = trace w @ newEvents w w'"
  unfolding extends_def newEvents_def by (metis append_take_drop_id)

lemma newEvents_append: "trace w' = trace w @ evs \<Longrightarrow> newEvents w w' = evs"
  by (simp add: newEvents_def)

lemma extends_trans:
  "extends w w1 \<Longrightarrow> extends w1 w2 \<Longrightarrow>
     extends w w2 \<and> newEvents w w2 = newEvents w w1 @ newEvents w1 w2"
  by (auto simp: extends_iff newEvents_def)

lemma quiet_extends: "quiet w w' \<Longrightarrow> extends w w'"
  by (simp add: quiet_def extends_def)

lemma quiet_events:
  "quiet w w' \<Longrightarrow> ledgerEvents (newEvents w w') = [] \<and> deleteEvents (newEvents w w') = []"
  by (auto simp: quiet_def storeEvents_def ledgerEvents_def deleteEvents_def filter_empty_conv)

lemma storeEvents_append: "storeEvents (xs @ ys) = storeEvents xs @ storeEvents ys"
  by (simp add: storeEvents_def)

lemma ledgerEvents_append: "ledgerEvents (xs @ ys) = ledgerEvents xs @ ledgerEvents ys"
  by (simp add: ledgerEvents_def)

lemma quiet_filesGet: "filesGet E i m w = (r, w') \<Longrightarrow> quiet w w'"
  by (auto simp: filesGet_def split: prod.splits option.splits dest: quiet_perform)

lemma quiet_getParentFolderName:
  assumes "getParentFolderName E f w = (r, w')"
  shows "quiet w w'"
proof (cases "file_Parents f")
  case (Cons parentID ps)
  with assms show ?thesis
    by (auto simp: getParentFolderName_def split: prod.splits sum.splits dest: quiet_filesGet)
next
  case Nil
  obtain r1 w1 where g1: "filesGet E (file_Id f) ''parents'' w = (r1, w1)"
    by (metis prod.exhaust)
  show ?thesis
  proof (cases r1)
    case (Inl e)
    with assms Nil g1 quiet_filesGet [OF g1] show ?thesis
      by (simp add: getParentFolderName_def)
  next
    case (Inr fi)
    show ?thesis
    proof (cases "file_Parents fi")
      case Nil2: Nil
      with assms Nil g1 Inr quiet_filesGet [OF g1] show ?thesis
        by (simp add: getParentFolderName_def)
    next
      case (Cons p0 ps)
      obtain r2 w2 where g2: "filesGet E p0 ''name'' w1 = (r2, w2)"
        by (metis prod.exhaust)
      have "quiet w w2"
        using quiet_filesGet [OF g1] quiet_filesGet [OF g2] by (rule quiet_trans)
      with assms Nil g1 Inr Cons g2 show ?thesis
        by (cases r2) (auto simp: getParentFolderName_def)
    qed
  qed
qed

lemma digitVal_digitChar: "d < 10 \<Longrightarrow> digitVal (digitChar d) = Some d"
proof -
  assume "d < 10"
  then consider "d = 0" | "d = 1" | "d = 2" | "d = 3" | "d = 4" | "d = 5" | "d = 6" | "d = 7"
    | "d = 8" | "d = 9"
    by atomize_elim arith
  then show ?thesis
    by cases (simp_all add: digitVal_def digitChar_def upt_rec)
qed

lemma atoi_append:
  "atoi (xs @ [c]) acc =
     (case atoi xs acc of
        None \<Rightarrow> None
      | Some a \<Rightarrow> (case digitVal c of None \<Rightarrow> None | Some d \<Rightarrow> Some (a * 10 + d)))"
  by (induction xs arbitrary: acc) (auto split: option.splits)

lemma atoi_itoa: "atoi (itoa n) 0 = Some n"
proof (induction n rule: itoa.induct)
  case (1 n)
  show ?case
  proof (cases "n < 10")
    case True
    then show ?thesis
      by (subst itoa.simps) (simp add: digitVal_digitChar)
  next
    case False
    with 1 have "atoi (itoa (n div 10)) 0 = Some (n div 10)" by simp
    with False show ?thesis
      by (subst itoa.simps) (simp add: atoi_append digitVal_digitChar)
  qed
qed

lemma itoa_nonempty: "itoa n \<noteq> []"
  by (subst itoa.simps) simp

lemma parseCellRef_B: "parseCellRef (CHR ''B'' # itoa (Suc i)) = Some (i, Suc 0)"
  by (simp add: columnIndex_def upt_rec itoa_nonempty atoi_itoa)

text \<open>The events of an upsert: the read, then at most one write; the ledger only.\<close>

lemma upsert_events:
  assumes "upsertSpreadsheetRow E sid kab ct w = (r, w')"
  shows "\<exists>ok evs. trace w' = trace w @ (ValuesGet sid ''A:B'', ok) # evs
            \<and> storeEvents evs = ledgerEvents evs \<and> ledgerEvents evs = evs"
proof -
  obtain r1 w1 where g: "valuesGet E sid ''A:B'' w = (r1, w1)"
    by (metis prod.exhaust)
  then have t1: "trace w1 = trace w @ [(ValuesGet sid ''A:B'', callFails E (trace w) (ValuesGet sid ''A:B'') = None)]"
    by (auto simp: valuesGet_def perform_def Let_def split: option.splits)
  show ?thesis
  proof (cases r1)
    case (Inl e)
    with assms g have "w' = w1" by (simp add: upsertSpreadsheetRow_def)
    with t1 show ?thesis by (simp add: storeEvents_def ledgerEvents_def)
  next
    case (Inr vals)
    show ?thesis
    proof (cases "findRow kab vals 0")
      case None
      with assms g Inr have
        "w' = snd (valuesAppend E sid ''A:B'' [StringCell kab, StringCell ct] w1)"
        by (auto simp: upsertSpreadsheetRow_def split: prod.splits option.splits)
      then have "trace w' = trace w1 @ [(ValuesAppend sid ''A:B'' [[StringCell kab, StringCell ct]],
          callFails E (trace w1) (ValuesAppend sid ''A:B'' [[StringCell kab, StringCell ct]]) = None)]"
        by (auto simp: valuesAppend_def perform_def Let_def split: option.splits)
      with t1 show ?thesis by (simp add: storeEvents_def ledgerEvents_def)
    next
      case (Some i)
      let ?a1 = "''B'' @ itoa (i + 1)"
      from assms g Inr Some have
        "w' = snd (valuesUpdate E sid ?a1 (StringCell ct) w1)"
        by (auto simp: upsertSpreadsheetRow_def Let_def split: prod.splits option.splits)
      then have "trace w' = trace w1 @ [(ValuesUpdate sid ?a1 [[StringCell ct]],
          callFails E (trace w1) (ValuesUpdate sid ?a1 [[StringCell ct]]) = None)]"
        by (auto simp: valuesUpdate_def perform_def Let_def parseCellRef_B
              simp del: parseCellRef.simps split: option.splits)
      with t1 show ?thesis by (simp add: storeEvents_def ledgerEvents_def)
    qed
  qed
qed

lemma quiet_then:
  assumes "quiet w w1" and "extends w1 w2"
  shows "extends w w2"
    and "storeEvents (newEvents w w2) = storeEvents (newEvents w1 w2)"
    and "ledgerEvents (newEvents w w2) = ledgerEvents (newEvents w1 w2)"
proof -
  from assms(1) have e: "extends w w1" and s: "storeEvents (newEvents w w1) = []"
    and l: "ledgerEvents (newEvents w w1) = []"
    using quiet_events [of w w1] by (simp_all add: quiet_def extends_def)
  from extends_trans [OF e assms(2)]
  have "extends w w2" and n: "newEvents w w2 = newEvents w w1 @ newEvents w1 w2" by simp_all
  then show "extends w w2" by simp
  from n s show "storeEvents (newEvents w w2) = storeEvents (newEvents w1 w2)"
    by (simp add: storeEvents_append)
  from n l show "ledgerEvents (newEvents w w2) = ledgerEvents (newEvents w1 w2)"
    by (simp add: ledgerEvents_append)
qed

lemma then_quiet:
  assumes "extends w w1" and "quiet w1 w2"
  shows "extends w w2"
    and "storeEvents (newEvents w w2) = storeEvents (newEvents w w1)"
    and "ledgerEvents (newEvents w w2) = ledgerEvents (newEvents w w1)"
    and "sheets w2 = sheets w1"
proof -
  from assms(2) have e: "extends w1 w2" and s: "storeEvents (newEvents w1 w2) = []"
    and l: "ledgerEvents (newEvents w1 w2) = []" and sh: "sheets w2 = sheets w1"
    using quiet_events [of w1 w2] by (simp_all add: quiet_def extends_def)
  from extends_trans [OF assms(1) e]
  have "extends w w2" and n: "newEvents w w2 = newEvents w w1 @ newEvents w1 w2" by simp_all
  then show "extends w w2" by simp
  from n s show "storeEvents (newEvents w w2) = storeEvents (newEvents w w1)"
    by (simp add: storeEvents_append)
  from n l show "ledgerEvents (newEvents w w2) = ledgerEvents (newEvents w w1)"
    by (simp add: ledgerEvents_append)
  from sh show "sheets w2 = sheets w1" .
qed

text \<open>\<open>deleteFileAndUpdateSpreadsheet\<close>, step by step.\<close>

lemma delete_steps:
  assumes "perform E (FilesDelete (file_Id f)) w = (r1, w1)"
    and "getParentFolderName E f w1 = (r2, w2)"
  shows "deleteFileAndUpdateSpreadsheet E sid f w =
     (case r1 of
        Some e \<Rightarrow> (Some (Error (''failed to delete Drive file: '' @ errorMsg e)), w1)
      | None \<Rightarrow>
          (case r2 of
             Inl pErr \<Rightarrow> (None, w2)
           | Inr parentName \<Rightarrow>
               (None, snd (upsertSpreadsheetRow E sid parentName
                             (formatCreatedTime E (file_CreatedTime f)) w2))))"
  using assms
  by (cases r1; cases r2)
     (simp_all add: deleteFileAndUpdateSpreadsheet_def split: prod.splits)

lemma delete_events:
  assumes d: "deleteFileAndUpdateSpreadsheet E sid f w = (r, w')"
  shows "extends w w'"
    and "storeEvents (newEvents w w') =
           (FilesDelete (file_Id f), callFails E (trace w) (FilesDelete (file_Id f)) = None)
             # ledgerEvents (newEvents w w')"
proof -
  let ?c = "FilesDelete (file_Id f)"
  let ?ok = "callFails E (trace w) ?c = None"
  obtain r1 w1 where p: "perform E ?c w = (r1, w1)" by (metis prod.exhaust)
  obtain r2 w2 where g: "getParentFolderName E f w1 = (r2, w2)" by (metis prod.exhaust)
  from p have t1: "trace w1 = trace w @ [(?c, ?ok)]" and r1: "r1 = callFails E (trace w) ?c"
    by (auto simp: perform_def Let_def)
  note q2 = quiet_getParentFolderName [OF g]
  then obtain e2 where t2: "trace w2 = trace w1 @ e2" and s2: "storeEvents e2 = []"
    by (auto simp: quiet_iff)
  from s2 have l2: "ledgerEvents e2 = []"
    by (auto simp: storeEvents_def ledgerEvents_def filter_empty_conv)
  have "extends w w' \<and> storeEvents (newEvents w w') = (?c, ?ok) # ledgerEvents (newEvents w w')"
  proof (cases r1)
    case (Some e)
    with d delete_steps [OF p g] have "w' = w1" by simp
    with t1 show ?thesis
      by (simp add: extends_iff newEvents_def storeEvents_def ledgerEvents_def)
  next
    case None
    show ?thesis
    proof (cases r2)
      case (Inl pErr)
      with d delete_steps [OF p g] None have "w' = w2" by simp
      with t1 t2 s2 l2 show ?thesis
        by (simp add: extends_iff newEvents_def storeEvents_append ledgerEvents_append)
           (simp add: storeEvents_def ledgerEvents_def)
    next
      case (Inr parentName)
      let ?u = "upsertSpreadsheetRow E sid parentName (formatCreatedTime E (file_CreatedTime f)) w2"
      from d delete_steps [OF p g] None Inr have w': "w' = snd ?u" by simp
      obtain ok evs where t3: "trace (snd ?u) = trace w2 @ (ValuesGet sid ''A:B'', ok) # evs"
        and s3: "storeEvents evs = ledgerEvents evs" and l3: "ledgerEvents evs = evs"
        using upsert_events [OF prod.collapse [symmetric], of E sid parentName
          "formatCreatedTime E (file_CreatedTime f)" w2] by blast
      from t1 t2 t3 w' have "newEvents w w' = (?c, ?ok) # e2 @ (ValuesGet sid ''A:B'', ok) # evs"
        by (simp add: newEvents_def)
      moreover have "storeEvents ((?c, ?ok) # e2 @ (ValuesGet sid ''A:B'', ok) # evs)
          = (?c, ?ok) # (ValuesGet sid ''A:B'', ok) # evs"
        using s2 s3 l3 by (simp add: storeEvents_def)
      moreover have "ledgerEvents ((?c, ?ok) # e2 @ (ValuesGet sid ''A:B'', ok) # evs)
          = (ValuesGet sid ''A:B'', ok) # evs"
        using l2 l3 by (simp add: ledgerEvents_def)
      ultimately show ?thesis
        using t1 t2 t3 w' by (simp add: extends_iff)
    qed
  qed
  then show "extends w w'"
    and "storeEvents (newEvents w w') = (?c, ?ok) # ledgerEvents (newEvents w w')"
    by simp_all
qed

lemma delete_cases:
  assumes d: "deleteFileAndUpdateSpreadsheet E sid f w = (r, w')"
  shows "callFails E (trace w) (FilesDelete (file_Id f)) = Some e \<Longrightarrow>
           r = Some (Error (''failed to delete Drive file: '' @ errorMsg e))
           \<and> w' = snd (perform E (FilesDelete (file_Id f)) w)
           \<and> ledgerEvents (newEvents w w') = [] \<and> sheets w' = sheets w"
    and "callFails E (trace w) (FilesDelete (file_Id f)) = None \<Longrightarrow>
         getParentFolderName E f (snd (perform E (FilesDelete (file_Id f)) w)) = (Inl pErr, w2) \<Longrightarrow>
           r = None \<and> w' = w2 \<and> ledgerEvents (newEvents w w') = [] \<and> sheets w' = sheets w"
    and "callFails E (trace w) (FilesDelete (file_Id f)) = None \<Longrightarrow>
         getParentFolderName E f (snd (perform E (FilesDelete (file_Id f)) w)) = (Inr p, w2) \<Longrightarrow>
           r = None
           \<and> w' = snd (upsertSpreadsheetRow E sid p (formatCreatedTime E (file_CreatedTime f)) w2)
           \<and> (\<exists>ok rest. ledgerEvents (newEvents w w') = (ValuesGet sid ''A:B'', ok) # rest)"
proof -
  let ?c = "FilesDelete (file_Id f)"
  let ?w1 = "snd (perform E ?c w)"
  have p: "perform E ?c w = (callFails E (trace w) ?c, ?w1)"
    by (simp add: perform_def Let_def)
  have t1: "trace ?w1 = trace w @ [(?c, callFails E (trace w) ?c = None)]"
    and sh1: "sheets ?w1 = sheets w"
    by (simp_all add: perform_def Let_def)
  {
    assume f: "callFails E (trace w) ?c = Some e"
    obtain r2 v2 where g: "getParentFolderName E f ?w1 = (r2, v2)" by (metis prod.exhaust)
    from d delete_steps [OF p g] f
    have "r = Some (Error (''failed to delete Drive file: '' @ errorMsg e))" and "w' = ?w1"
      by simp_all
    with t1 sh1 show "r = Some (Error (''failed to delete Drive file: '' @ errorMsg e))
           \<and> w' = ?w1 \<and> ledgerEvents (newEvents w w') = [] \<and> sheets w' = sheets w"
      by (simp add: newEvents_def ledgerEvents_def)
  }
  {
    assume f: "callFails E (trace w) ?c = None"
      and g: "getParentFolderName E f ?w1 = (Inl pErr, w2)"
    from d delete_steps [OF p g] f have r: "r = None" and w': "w' = w2" by simp_all
    from quiet_getParentFolderName [OF g] obtain e2 where
      t2: "trace w2 = trace ?w1 @ e2" and s2: "storeEvents e2 = []" and sh2: "sheets w2 = sheets ?w1"
      by (auto simp: quiet_iff)
    from s2 have "ledgerEvents e2 = []"
      by (auto simp: storeEvents_def ledgerEvents_def filter_empty_conv)
    with r w' t1 t2 sh1 sh2
    show "r = None \<and> w' = w2 \<and> ledgerEvents (newEvents w w') = [] \<and> sheets w' = sheets w"
      by (simp add: newEvents_def ledgerEvents_def)
  }
  {
    assume f: "callFails E (trace w) ?c = None"
      and g: "getParentFolderName E f ?w1 = (Inr p, w2)"
    let ?u = "upsertSpreadsheetRow E sid p (formatCreatedTime E (file_CreatedTime f)) w2"
    from d delete_steps [OF p g] f have r: "r = None" and w': "w' = snd ?u" by simp_all
    from quiet_getParentFolderName [OF g] obtain e2 where
      t2: "trace w2 = trace ?w1 @ e2" and s2: "storeEvents e2 = []"
      by (auto simp: quiet_iff)
    from s2 have l2: "ledgerEvents e2 = []"
      by (auto simp: storeEvents_def ledgerEvents_def filter_empty_conv)
    obtain ok evs where t3: "trace (snd ?u) = trace w2 @ (ValuesGet sid ''A:B'', ok) # evs"
      using upsert_events [OF prod.collapse [symmetric], of E sid p
        "formatCreatedTime E (file_CreatedTime f)" w2] by blast
    from t1 t2 t3 w' have "newEvents w w' =
        (?c, callFails E (trace w) ?c = None) # e2 @ (ValuesGet sid ''A:B'', ok) # evs"
      by (simp add: newEvents_def)
    then have "ledgerEvents (newEvents w w') = (ValuesGet sid ''A:B'', ok) # ledgerEvents evs"
      using l2 by (simp add: ledgerEvents_def)
    with r w' show "r = None \<and> w' = snd ?u
           \<and> (\<exists>ok rest. ledgerEvents (newEvents w w') = (ValuesGet sid ''A:B'', ok) # rest)"
      by blast
  }
qed

lemma shouldDelete_iff:
  "shouldDelete E f w =
     (case parseRFC3339 E (file_CreatedTime f) of
        None \<Rightarrow> False
      | Some t \<Rightarrow> maxAgeForDeletion \<le> clockNow E (trace w) - t)"
  by (simp add: shouldDelete_def timeSince_def Let_def maxAgeForDeletion_def maxDuration_def
        minDuration_def split: option.splits)

lemma processFile_extract_failure:
  assumes "\<not> file_Size f < minFileSize"
    and "createTempDir E w = (Inr tempDir, w1)"
    and "downloadAndExtract E f tempDir password w1 = (Inl e, w2)"
  shows "processFile E spreadsheetID f dbHost dbUser dbPass dbName password updateQuery w =
     (Some e, snd (perform E (RemoveAll tempDir)
        (if shouldDelete E f w2 then snd (deleteFileAndUpdateSpreadsheet E spreadsheetID f w2)
         else w2)))"
  using assms by (simp add: processFile_def)

lemmas run_defs = createTempDir_def downloadAndExtract_def downloadFile_def extract7z_def
  runCmd_def findBakFile_def walkFn_def hasSuffix_def perform_def Let_def

lemmas delete_defs = deleteFileAndUpdateSpreadsheet_def getParentFolderName_def filesGet_def
  upsertSpreadsheetRow_def valuesGet_def valuesAppend_def valuesUpdate_def formatCreatedTime_def

lemma runCmd_trace:
  "runCmd E name args w = ((out, e), w') \<Longrightarrow>
     trace w' = trace w @ [(Exec name args, e = None)]"
  by (auto simp: runCmd_def perform_def Let_def)

lemma pair3_snd: "fst (fst p) = a \<Longrightarrow> snd (fst p) = b \<Longrightarrow> p = ((a, b), snd p)"
  by (cases p) auto

lemmas sql_defs = fileListArgs_def dataPathArgs_def sqlArgs_def singleUserQuery_def
  multiUserQuery_def restoreArgs_def restoreQuery_def quoted_def

lemma fileListLine_cases:
  "fileListLine (d, g) l =
     (if manifestRow l
      then (if isLogRow l then (d, manifestColumns l ! 0) else (manifestColumns l ! 0, g))
      else (d, g))"
  by (auto simp: fileListLine_def Let_def manifestRow_def isLogRow_def manifestColumns_def)

lemma foldl_fileListLine:
  "foldl fileListLine (d, g) ls =
     (lastLogicalName d (filter (\<lambda>l. manifestRow l \<and> \<not> isLogRow l) ls),
      lastLogicalName g (filter (\<lambda>l. manifestRow l \<and> isLogRow l) ls))"
proof (induction ls arbitrary: d g)
  case Nil
  show ?case by (simp add: lastLogicalName_def)
next
  case (Cons l ls)
  show ?case
    by (simp add: fileListLine_cases Cons.IH) (simp add: lastLogicalName_def)
qed

lemma trimSpace_Nil: "trimSpace [] = []"
  by (simp add: trimSpace_def trimLeft_Nil trimRight_Nil)

lemma walk_no_error:
  "\<forall>v\<in>set vs. visit_err v = None \<Longrightarrow>
     walk vs bakFile =
       (if bakVisits vs = [] then bakFile else visit_path (last (bakVisits vs)), None)"
  by (induction vs arbitrary: bakFile) (auto simp: walkFn_def bakVisits_def)

lemma walk_error:
  "find (\<lambda>v. visit_err v \<noteq> None) vs = Some v \<Longrightarrow> snd (walk vs bakFile) = visit_err v"
  by (induction vs arbitrary: bakFile) (auto simp: walkFn_def split: option.splits if_splits)

lemma setCell_in_range:
  "i < length rows \<Longrightarrow> setCell rows i (Suc 0) v = rows[i := setB (rows ! i) v]"
  by (simp add: setCell_def setB_def Let_def numeral_2_eq_2)

lemma findRow_Some:
  "findRow kab rows i = Some j \<Longrightarrow>
     \<exists>pre row post. rows = pre @ row # post \<and> keyRows kab pre = [] \<and> rowMatches kab row
        \<and> j = i + length pre"
proof (induction rows arbitrary: i)
  case Nil
  then show ?case by simp
next
  case (Cons r rows)
  show ?case
  proof (cases "rowMatches kab r")
    case True
    with Cons.prems have "j = i" by simp
    with True show ?thesis
      by (intro exI [of _ "[]"] exI [of _ r] exI [of _ rows]) (simp add: keyRows_def)
  next
    case False
    with Cons.prems have "findRow kab rows (Suc i) = Some j" by simp
    from Cons.IH [OF this] obtain pre row post where
      "rows = pre @ row # post" "keyRows kab pre = []" "rowMatches kab row" "j = Suc i + length pre"
      by blast
    with False show ?thesis
      by (intro exI [of _ "r # pre"] exI [of _ row] exI [of _ post]) (simp add: keyRows_def)
  qed
qed

lemma findRow_None: "findRow kab rows i = None \<Longrightarrow> keyRows kab rows = []"
  by (induction rows arbitrary: i) (auto simp: keyRows_def split: if_splits)

lemma rowMatches_setB:
  "rowMatches kab row \<Longrightarrow> rowMatches kab (setB row v) \<and> columnB (setB row v) = Some v"
proof -
  assume m: "rowMatches kab row"
  then obtain s cs where row: "row = StringCell s # cs"
    by (auto elim: rowMatches.elims)
  show ?thesis
  proof (cases cs)
    case Nil
    with row m show ?thesis by (simp add: setB_def columnB_def numeral_2_eq_2)
  next
    case (Cons b rest)
    with row m show ?thesis by (simp add: setB_def columnB_def)
  qed
qed

lemma keyRows_upserted:
  "\<exists>row. rowMatches kab row \<and> columnB row = Some (StringCell t)
     \<and> keyRows kab (upsertedRows kab t rows) = row # tl (keyRows kab rows)"
proof (cases "findRow kab rows 0")
  case None
  from findRow_None [OF None] have "keyRows kab rows = []" .
  with None show ?thesis
    by (intro exI [of _ "[StringCell kab, StringCell t]"])
       (simp add: upsertedRows_def keyRows_def columnB_def)
next
  case (Some i)
  from findRow_Some [OF Some] obtain pre row post where
    d: "rows = pre @ row # post" "keyRows kab pre = []" "rowMatches kab row" "i = length pre"
    by auto
  let ?r = "setB row (StringCell t)"
  from d have u: "upsertedRows kab t rows = pre @ ?r # post"
    using Some by (simp add: upsertedRows_def)
  from rowMatches_setB [OF d(3), of "StringCell t"] d u show ?thesis
    by (intro exI [of _ ?r]) (simp add: keyRows_def)
qed

lemma upsert_sheet:
  assumes "upsertSpreadsheetRow E sid kab t w = (None, w')"
  shows "sheets w' sid = upsertedRows kab t (sheets w sid)"
proof -
  let ?rows = "sheets w sid"
  obtain r1 w1 where p1: "perform E (ValuesGet sid ''A:B'') w = (r1, w1)"
    by (metis prod.exhaust)
  then have s1: "sheets w1 = sheets w"
    by (auto simp: perform_def Let_def)
  from assms p1 have r1: "r1 = None"
    by (cases r1) (auto simp: upsertSpreadsheetRow_def valuesGet_def)
  with p1 have g: "valuesGet E sid ''A:B'' w = (Inr ?rows, w1)"
    by (simp add: valuesGet_def)
  show ?thesis
  proof (cases "findRow kab ?rows 0")
    case None
    let ?c = "ValuesAppend sid ''A:B'' [[StringCell kab, StringCell t]]"
    obtain r2 w2 where p2: "perform E ?c w1 = (r2, w2)" by (metis prod.exhaust)
    then have s2: "sheets w2 = sheets w1" by (auto simp: perform_def Let_def)
    from assms g None p2 have "r2 = None"
      by (cases r2) (auto simp: upsertSpreadsheetRow_def valuesAppend_def)
    with assms g None p2 have "w' = w2\<lparr>sheets := (sheets w2)
        (sid := sheets w2 sid @ [[StringCell kab, StringCell t]])\<rparr>"
      by (simp add: upsertSpreadsheetRow_def valuesAppend_def)
    with s1 s2 None show ?thesis by (simp add: upsertedRows_def)
  next
    case (Some i)
    from findRow_Some [OF Some] have i: "i < length ?rows" by auto
    let ?a1 = "''B'' @ itoa (i + 1)"
    let ?c = "ValuesUpdate sid ?a1 [[StringCell t]]"
    obtain r2 w2 where p2: "perform E ?c w1 = (r2, w2)" by (metis prod.exhaust)
    then have s2: "sheets w2 = sheets w1" by (auto simp: perform_def Let_def)
    from assms g Some p2 have "r2 = None"
      by (cases r2)
         (auto simp: upsertSpreadsheetRow_def valuesUpdate_def Let_def parseCellRef_B
            simp del: parseCellRef.simps)
    with assms g Some p2 have "w' = w2\<lparr>sheets := (sheets w2)
        (sid := setCell (sheets w2 sid) i 1 (StringCell t))\<rparr>"
      by (simp add: upsertSpreadsheetRow_def valuesUpdate_def Let_def parseCellRef_B
            del: parseCellRef.simps)
    with s1 s2 Some i show ?thesis by (simp add: upsertedRows_def setCell_in_range)
  qed
qed

lemma findRow_first:
  assumes "findRow kab rows 0 = Some i"
  shows "i < length rows \<and> rowMatches kab (rows ! i) \<and> (\<forall>j<i. \<not> rowMatches kab (rows ! j))"
proof -
  from findRow_Some [OF assms] obtain pre row post where
    d: "rows = pre @ row # post" "keyRows kab pre = []" "rowMatches kab row" "i = length pre"
    by auto
  from d(2) have "\<forall>x\<in>set pre. \<not> rowMatches kab x"
    by (simp add: keyRows_def filter_empty_conv)
  then have "\<forall>j<length pre. \<not> rowMatches kab (pre ! j)" by simp
  with d show ?thesis by (simp add: nth_append)
qed

lemma demoEnv_ok: "callFails demoEnv h c = None"
  by (simp add: demoEnv_def)

lemma itoa_digit: "n < 10 \<Longrightarrow> itoa n = [digitChar n]"
  by (subst itoa.simps) simp

lemmas upsert_defs = upsertSpreadsheetRow_def valuesGet_def valuesUpdate_def valuesAppend_def
  perform_def Let_def itoa_digit digitChar_def digitVal_def columnIndex_def upt_rec

section \<open>Failures of the download and of the extraction\<close>

text \<open>
  C1, as amended. When \<open>downloadAndExtract\<close> fails with an error and the creation time
  parses, \<open>processFile\<close> returns that error. If the file is at least 10 minutes old, the
  run goes on with \<open>deleteFileAndUpdateSpreadsheet\<close>: the first and only deletion
  attempted is that of the source file, and what follows it are ledger calls only; when the
  deletion fails, or the name of the parent folder cannot be fetched, there is no ledger
  call and the ledger is unchanged; when the deletion succeeds and the name is fetched, the
  upsert runs, starting with its read of the ledger. If the file is younger than 10 minutes,
  nothing is deleted, no ledger call is made and the ledger is unchanged.
\<close>

theorem processFile_age_gate:
  assumes size: "\<not> file_Size f < minFileSize"
    and tmp: "createTempDir E w = (Inr tempDir, w1)"
    and ext: "downloadAndExtract E f tempDir password w1 = (Inl e, w2)"
    and parse: "parseRFC3339 E (file_CreatedTime f) = Some t"
    and run: "processFile E spreadsheetID f dbHost dbUser dbPass dbName password updateQuery w
                = (r, w')"
  shows "r = Some e
    \<and> (maxAgeForDeletion \<le> clockNow E (trace w2) - t \<longrightarrow>
          w' = snd (perform E (RemoveAll tempDir)
                 (snd (deleteFileAndUpdateSpreadsheet E spreadsheetID f w2)))
        \<and> storeEvents (newEvents w w') =
            (FilesDelete (file_Id f), callFails E (trace w2) (FilesDelete (file_Id f)) = None)
              # ledgerEvents (newEvents w w')
        \<and> (callFails E (trace w2) (FilesDelete (file_Id f)) \<noteq> None \<longrightarrow>
              ledgerEvents (newEvents w w') = [] \<and> sheets w' = sheets w)
        \<and> (callFails E (trace w2) (FilesDelete (file_Id f)) = None \<longrightarrow>
            (\<forall>pErr w3. getParentFolderName E f (snd (perform E (FilesDelete (file_Id f)) w2))
                  = (Inl pErr, w3) \<longrightarrow>
               ledgerEvents (newEvents w w') = [] \<and> sheets w' = sheets w)
          \<and> (\<forall>parentName w3.
               getParentFolderName E f (snd (perform E (FilesDelete (file_Id f)) w2))
                  = (Inr parentName, w3) \<longrightarrow>
               w' = snd (perform E (RemoveAll tempDir)
                      (snd (upsertSpreadsheetRow E spreadsheetID parentName
                              (formatCreatedTime E (file_CreatedTime f)) w3)))
               \<and> (\<exists>ok rest. ledgerEvents (newEvents w w')
                               = (ValuesGet spreadsheetID ''A:B'', ok) # rest))))
    \<and> (clockNow E (trace w2) - t < maxAgeForDeletion \<longrightarrow>
          w' = snd (perform E (RemoveAll tempDir) w2)
        \<and> storeEvents (newEvents w w') = [] \<and> sheets w' = sheets w)"
proof -
  let ?c = "FilesDelete (file_Id f)"
  let ?D = "deleteFileAndUpdateSpreadsheet E spreadsheetID f w2"
  note pe = processFile_extract_failure [OF size tmp ext, of spreadsheetID dbHost dbUser dbPass
      dbName updateQuery]
  have q2: "quiet w w2"
    using quiet_createTempDir [OF tmp] quiet_downloadAndExtract [OF ext] by (rule quiet_trans)
  from pe run have r: "r = Some e" by simp
  have young: "w' = snd (perform E (RemoveAll tempDir) w2)
        \<and> storeEvents (newEvents w w') = [] \<and> sheets w' = sheets w"
    if "clockNow E (trace w2) - t < maxAgeForDeletion"
  proof -
    from that parse have "\<not> shouldDelete E f w2" by (simp add: shouldDelete_iff)
    with pe run have w': "w' = snd (perform E (RemoveAll tempDir) w2)" by simp
    have "quiet w w'"
      unfolding w' using q2 quiet_RemoveAll [of w2 E tempDir] by (rule quiet_trans)
    with w' show ?thesis by (simp add: quiet_def)
  qed
  have old: "w' = snd (perform E (RemoveAll tempDir) (snd ?D))
        \<and> storeEvents (newEvents w w') =
            (?c, callFails E (trace w2) ?c = None) # ledgerEvents (newEvents w w')
        \<and> (callFails E (trace w2) ?c \<noteq> None \<longrightarrow>
              ledgerEvents (newEvents w w') = [] \<and> sheets w' = sheets w)
        \<and> (callFails E (trace w2) ?c = None \<longrightarrow>
            (\<forall>pErr w3. getParentFolderName E f (snd (perform E ?c w2)) = (Inl pErr, w3) \<longrightarrow>
               ledgerEvents (newEvents w w') = [] \<and> sheets w' = sheets w)
          \<and> (\<forall>parentName w3.
               getParentFolderName E f (snd (perform E ?c w2)) = (Inr parentName, w3) \<longrightarrow>
               w' = snd (perform E (RemoveAll tempDir)
                      (snd (upsertSpreadsheetRow E spreadsheetID parentName
                              (formatCreatedTime E (file_CreatedTime f)) w3)))
               \<and> (\<exists>ok rest. ledgerEvents (newEvents w w')
                               = (ValuesGet spreadsheetID ''A:B'', ok) # rest)))"
    if "maxAgeForDeletion \<le> clockNow E (trace w2) - t"
  proof -
    from that parse have "shouldDelete E f w2" by (simp add: shouldDelete_iff)
    with pe run have w': "w' = snd (perform E (RemoveAll tempDir) (snd ?D))" by simp
    have d: "?D = (fst ?D, snd ?D)" by simp
    note ev = delete_events [OF d]
    note a = quiet_then [OF q2 ev(1)]
    have qr: "quiet (snd ?D) w'" unfolding w' by (rule quiet_RemoveAll)
    note b = then_quiet [OF a(1) qr]
    have st: "storeEvents (newEvents w w') = storeEvents (newEvents w2 (snd ?D))"
      and le: "ledgerEvents (newEvents w w') = ledgerEvents (newEvents w2 (snd ?D))"
      and sh: "sheets w' = sheets (snd ?D)"
      using a b by simp_all
    have sh2: "sheets w2 = sheets w" using q2 by (simp add: quiet_def)
    have c1: "storeEvents (newEvents w w') =
            (?c, callFails E (trace w2) ?c = None) # ledgerEvents (newEvents w w')"
      using st le ev(2) by simp
    have c2: "ledgerEvents (newEvents w w') = [] \<and> sheets w' = sheets w"
      if "callFails E (trace w2) ?c \<noteq> None"
    proof -
      from that obtain de where "callFails E (trace w2) ?c = Some de" by blast
      from delete_cases(1) [OF d this]
      have "ledgerEvents (newEvents w2 (snd ?D)) = []" and "sheets (snd ?D) = sheets w2"
        by blast+
      with le sh sh2 show ?thesis by simp
    qed
    have c3: "ledgerEvents (newEvents w w') = [] \<and> sheets w' = sheets w"
      if "callFails E (trace w2) ?c = None"
        and "getParentFolderName E f (snd (perform E ?c w2)) = (Inl pErr, w3)" for pErr w3
    proof -
      from delete_cases(2) [OF d that]
      have "ledgerEvents (newEvents w2 (snd ?D)) = []" and "sheets (snd ?D) = sheets w2"
        by blast+
      with le sh sh2 show ?thesis by simp
    qed
    have c4: "w' = snd (perform E (RemoveAll tempDir)
                      (snd (upsertSpreadsheetRow E spreadsheetID parentName
                              (formatCreatedTime E (file_CreatedTime f)) w3)))
               \<and> (\<exists>ok rest. ledgerEvents (newEvents w w')
                               = (ValuesGet spreadsheetID ''A:B'', ok) # rest)"
      if "callFails E (trace w2) ?c = None"
        and "getParentFolderName E f (snd (perform E ?c w2)) = (Inr parentName, w3)"
      for parentName w3
    proof -
      from delete_cases(3) [OF d that]
      have "snd ?D = snd (upsertSpreadsheetRow E spreadsheetID parentName
                              (formatCreatedTime E (file_CreatedTime f)) w3)"
        and "\<exists>ok rest. ledgerEvents (newEvents w2 (snd ?D))
                               = (ValuesGet spreadsheetID ''A:B'', ok) # rest"
        by blast+
      with le w' show ?thesis by simp
    qed
    from w' c1 c2 c3 c4 show ?thesis by blast
  qed
  from r young old show ?thesis by blast
qed

theorem processFile_age_gate_witness:
  "shouldDelete (failing is7z) bigFile world0
   \<and> fst (processFile (failing is7z) ''sheet1'' bigFile ''srv'' [] [] ''db'' ''pw''
        ''UPDATE t SET x = 1'' world0) = Some (Error ''failed to extract 7z: exit status 1'')
   \<and> storeEvents (trace (snd (processFile (failing is7z) ''sheet1'' bigFile ''srv'' [] [] ''db''
        ''pw'' ''UPDATE t SET x = 1'' world0)))
      = [(FilesDelete ''f1'', True), (ValuesGet ''sheet1'' ''A:B'', True),
         (ValuesAppend ''sheet1'' ''A:B''
            [[StringCell ''Kab01'', StringCell ''3/1/2025 00:00:00'']], True)]
   \<and> \<not> shouldDelete youngEnv bigFile world0
   \<and> processFile youngEnv ''sheet1'' bigFile ''srv'' [] [] ''db'' ''pw''
        ''UPDATE t SET x = 1'' world0
     = (Some (Error ''failed to extract 7z: exit status 1''),
        \<lparr>trace = [(MkdirTemp [] ''backup-*'', True), (FilesDownload ''f1'', True),
                  (OsCreate ''/tmp/backup-1/Susenas2025M_01.7z'', True),
                  (IoCopy ''/tmp/backup-1/Susenas2025M_01.7z'', True),
                  (Exec ''7z'' [''x'', ''-ppw'', ''/tmp/backup-1/Susenas2025M_01.7z'',
                                ''-o/tmp/backup-1/extracted''], False),
                  (RemoveAll ''/tmp/backup-1'', True)],
         sheets = (\<lambda>s. [])\<rparr>)"
proof -
  let ?E = "failing is7z"
  let ?Y = "youngEnv"
  let ?run = "\<lambda>E. processFile E ''sheet1'' bigFile ''srv'' [] [] ''db'' ''pw''
                 ''UPDATE t SET x = 1'' world0"
  let ?w1 = "\<lambda>E. snd (createTempDir E world0)"
  let ?w2 = "\<lambda>E. snd (downloadAndExtract E bigFile ''/tmp/backup-1'' ''pw'' (?w1 E))"
  let ?e = "Error ''failed to extract 7z: exit status 1''"
  have size: "\<not> file_Size bigFile < minFileSize"
    by (simp add: demo_defs minFileSize_def)
  have parse: "parseRFC3339 ?E (file_CreatedTime bigFile) = Some 0"
    and parseY: "parseRFC3339 ?Y (file_CreatedTime bigFile) = Some 0"
    by (simp_all add: demo_defs youngEnv_def)
  have tmp: "createTempDir ?E world0 = (Inr ''/tmp/backup-1'', ?w1 ?E)"
    and tmpY: "createTempDir ?Y world0 = (Inr ''/tmp/backup-1'', ?w1 ?Y)"
    by (rule pair_snd, simp add: demo_defs youngEnv_def is7z_def run_defs)+
  have ext: "downloadAndExtract ?E bigFile ''/tmp/backup-1'' ''pw'' (?w1 ?E) = (Inl ?e, ?w2 ?E)"
    and extY: "downloadAndExtract ?Y bigFile ''/tmp/backup-1'' ''pw'' (?w1 ?Y) = (Inl ?e, ?w2 ?Y)"
    by (rule pair_snd, simp add: demo_defs youngEnv_def is7z_def run_defs)+
  have old: "maxAgeForDeletion \<le> clockNow ?E (trace (?w2 ?E)) - 0"
    and young: "clockNow ?Y (trace (?w2 ?Y)) - 0 < maxAgeForDeletion"
    by (simp_all add: demo_defs youngEnv_def maxAgeForDeletion_def)
  have sd: "shouldDelete ?E bigFile world0" and sdY: "\<not> shouldDelete ?Y bigFile world0"
    by (simp_all add: shouldDelete_iff demo_defs youngEnv_def maxAgeForDeletion_def)
  from processFile_age_gate [OF size tmp ext parse prod.collapse [symmetric]] old
  have a: "fst (?run ?E) = Some ?e"
    and b: "storeEvents (newEvents world0 (snd (?run ?E))) =
        (FilesDelete (file_Id bigFile),
         callFails ?E (trace (?w2 ?E)) (FilesDelete (file_Id bigFile)) = None)
          # ledgerEvents (newEvents world0 (snd (?run ?E)))"
    by blast+
  from processFile_age_gate [OF size tmpY extY parseY prod.collapse [symmetric]] young
  have c: "fst (?run ?Y) = Some ?e"
    and d: "snd (?run ?Y) = snd (perform ?Y (RemoveAll ''/tmp/backup-1'') (?w2 ?Y))"
    by blast+
  have l: "ledgerEvents (newEvents world0 (snd (?run ?E))) =
      [(ValuesGet ''sheet1'' ''A:B'', True),
       (ValuesAppend ''sheet1'' ''A:B''
          [[StringCell ''Kab01'', StringCell ''3/1/2025 00:00:00'']], True)]"
    by (simp add: processFile_def demo_defs is7z_def run_defs delete_defs shouldDelete_iff
          maxAgeForDeletion_def minFileSize_def newEvents_def ledgerEvents_def)
  have n: "newEvents world0 (snd (?run ?E)) = trace (snd (?run ?E))"
    by (simp add: newEvents_def world0_def)
  have e: "?run ?Y = (Some ?e, snd (perform ?Y (RemoveAll ''/tmp/backup-1'') (?w2 ?Y)))"
    using c d by (metis prod.collapse)
  have f: "snd (perform ?Y (RemoveAll ''/tmp/backup-1'') (?w2 ?Y)) =
        \<lparr>trace = [(MkdirTemp [] ''backup-*'', True), (FilesDownload ''f1'', True),
                  (OsCreate ''/tmp/backup-1/Susenas2025M_01.7z'', True),
                  (IoCopy ''/tmp/backup-1/Susenas2025M_01.7z'', True),
                  (Exec ''7z'' [''x'', ''-ppw'', ''/tmp/backup-1/Susenas2025M_01.7z'',
                                ''-o/tmp/backup-1/extracted''], False),
                  (RemoveAll ''/tmp/backup-1'', True)],
         sheets = (\<lambda>s. [])\<rparr>"
    by (simp add: demo_defs youngEnv_def is7z_def run_defs)
  have g: "callFails ?E (trace (?w2 ?E)) (FilesDelete (file_Id bigFile)) = None"
    by (simp add: demo_defs is7z_def)
  from sd sdY a b l n e f g show ?thesis
    by (simp add: demo_defs)
qed

text \<open>
  An old file whose deletion fails is not deleted, and no ledger call is made; an old file
  whose parent folder cannot be fetched is deleted, and no ledger call is made.
\<close>

theorem processFile_age_gate_counterexample:
  "shouldDelete (failing (\<lambda>c. is7z c \<or> isDelete c)) bigFile world0
   \<and> processFile (failing (\<lambda>c. is7z c \<or> isDelete c)) ''sheet1'' bigFile ''srv'' [] [] ''db''
        ''pw'' ''UPDATE t SET x = 1'' world0
     = (Some (Error ''failed to extract 7z: exit status 1''),
        \<lparr>trace = [(MkdirTemp [] ''backup-*'', True), (FilesDownload ''f1'', True),
                  (OsCreate ''/tmp/backup-1/Susenas2025M_01.7z'', True),
                  (IoCopy ''/tmp/backup-1/Susenas2025M_01.7z'', True),
                  (Exec ''7z'' [''x'', ''-ppw'', ''/tmp/backup-1/Susenas2025M_01.7z'',
                                ''-o/tmp/backup-1/extracted''], False),
                  (FilesDelete ''f1'', False),
                  (RemoveAll ''/tmp/backup-1'', True)],
         sheets = (\<lambda>s. [])\<rparr>)
   \<and> shouldDelete (failing (\<lambda>c. is7z c \<or> isFilesGet c)) bigFile world0
   \<and> processFile (failing (\<lambda>c. is7z c \<or> isFilesGet c)) ''sheet1'' bigFile ''srv'' [] [] ''db''
        ''pw'' ''UPDATE t SET x = 1'' world0
     = (Some (Error ''failed to extract 7z: exit status 1''),
        \<lparr>trace = [(MkdirTemp [] ''backup-*'', True), (FilesDownload ''f1'', True),
                  (OsCreate ''/tmp/backup-1/Susenas2025M_01.7z'', True),
                  (IoCopy ''/tmp/backup-1/Susenas2025M_01.7z'', True),
                  (Exec ''7z'' [''x'', ''-ppw'', ''/tmp/backup-1/Susenas2025M_01.7z'',
                                ''-o/tmp/backup-1/extracted''], False),
                  (FilesDelete ''f1'', True), (FilesGet ''p1'' ''id, name'', False),
                  (RemoveAll ''/tmp/backup-1'', True)],
         sheets = (\<lambda>s. [])\<rparr>)"
  by (simp add: processFile_def demo_defs is7z_def isFilesGet_def run_defs delete_defs
        shouldDelete_iff maxAgeForDeletion_def minFileSize_def)

section \<open>The order of deletion and ledger update\<close>

text \<open>
  C2, as amended. For a file that was extracted, restored and corrected, the calls of
  \<open>processFile\<close> to the remote store's deletion and to the ledger are: first the
  deletion of the source file, then ledger calls only. When the deletion fails,
  \<open>deleteFileAndUpdateSpreadsheet\<close> returns the deletion error right after the
  deletion call, \<open>processFile\<close> returns it, no ledger call is made and the ledger is
  unchanged. When the deletion succeeds \<open>processFile\<close> returns no error, and the
  upsert runs exactly when the name of the parent folder is fetched: if it cannot be
  fetched, the run ends after that lookup with no ledger call and the ledger unchanged; if
  it is fetched, what follows is \<open>upsertSpreadsheetRow\<close> for that name and the formatted
  creation time, whose first ledger call, its read of the ledger, comes after the deletion.
\<close>

theorem processFile_delete_before_ledger:
  assumes size: "\<not> file_Size f < minFileSize"
    and tmp: "createTempDir E w = (Inr tempDir, w1)"
    and ext: "downloadAndExtract E f tempDir password w1 = (Inr bakFile, w2)"
    and rest: "restoreDB E dbHost dbUser dbPass dbName bakFile
                 (grantPermissions E bakFile dbHost w2) = (None, w3)"
    and upd: "runUpdateQuery E dbHost dbUser dbPass dbName updateQuery w3 = (None, w4)"
    and run: "processFile E spreadsheetID f dbHost dbUser dbPass dbName password updateQuery w
                = (r, w')"
  shows "r = fst (deleteFileAndUpdateSpreadsheet E spreadsheetID f w4)
    \<and> w' = snd (perform E (RemoveAll tempDir)
               (snd (deleteFileAndUpdateSpreadsheet E spreadsheetID f w4)))
    \<and> storeEvents (newEvents w w') =
         (FilesDelete (file_Id f), callFails E (trace w4) (FilesDelete (file_Id f)) = None)
           # ledgerEvents (newEvents w w')
    \<and> (\<forall>e. callFails E (trace w4) (FilesDelete (file_Id f)) = Some e \<longrightarrow>
           deleteFileAndUpdateSpreadsheet E spreadsheetID f w4
             = (Some (Error (''failed to delete Drive file: '' @ errorMsg e)),
                snd (perform E (FilesDelete (file_Id f)) w4))
         \<and> r = Some (Error (''failed to delete Drive file: '' @ errorMsg e))
         \<and> ledgerEvents (newEvents w w') = [] \<and> sheets w' = sheets w)
    \<and> (callFails E (trace w4) (FilesDelete (file_Id f)) = None \<longrightarrow>
          r = None
        \<and> (\<forall>pErr w5. getParentFolderName E f (snd (perform E (FilesDelete (file_Id f)) w4))
                = (Inl pErr, w5) \<longrightarrow>
             w' = snd (perform E (RemoveAll tempDir) w5)
             \<and> ledgerEvents (newEvents w w') = [] \<and> sheets w' = sheets w)
        \<and> (\<forall>parentName w5.
             getParentFolderName E f (snd (perform E (FilesDelete (file_Id f)) w4))
                = (Inr parentName, w5) \<longrightarrow>
             w' = snd (perform E (RemoveAll tempDir)
                    (snd (upsertSpreadsheetRow E spreadsheetID parentName
                            (formatCreatedTime E (file_CreatedTime f)) w5)))
             \<and> (\<exists>ok rest. ledgerEvents (newEvents w w')
                             = (ValuesGet spreadsheetID ''A:B'', ok) # rest)))"
proof -
  let ?c = "FilesDelete (file_Id f)"
  let ?D = "deleteFileAndUpdateSpreadsheet E spreadsheetID f w4"
  have d: "?D = (fst ?D, snd ?D)" by simp
  from processFile_after_extract [OF size tmp ext rest upd d] run
  have r: "r = fst ?D" and w': "w' = snd (perform E (RemoveAll tempDir) (snd ?D))"
    by simp_all
  have q4: "quiet w w4"
    using quiet_createTempDir [OF tmp] quiet_downloadAndExtract [OF ext]
      quiet_grantPermissions [of w2 E bakFile dbHost] quiet_restoreDB [OF rest]
      quiet_runUpdateQuery [OF upd]
    by (blast intro: quiet_trans)
  note ev = delete_events [OF d]
  note a = quiet_then [OF q4 ev(1)]
  have qr: "quiet (snd ?D) w'" unfolding w' by (rule quiet_RemoveAll)
  note b = then_quiet [OF a(1) qr]
  have st: "storeEvents (newEvents w w') = storeEvents (newEvents w4 (snd ?D))"
    and le: "ledgerEvents (newEvents w w') = ledgerEvents (newEvents w4 (snd ?D))"
    and sh: "sheets w' = sheets (snd ?D)"
    using a b by simp_all
  have sh4: "sheets w4 = sheets w" using q4 by (simp add: quiet_def)
  have c1: "storeEvents (newEvents w w') =
      (?c, callFails E (trace w4) ?c = None) # ledgerEvents (newEvents w w')"
    using st le ev(2) by simp
  have c2: "?D = (Some (Error (''failed to delete Drive file: '' @ errorMsg e)),
                  snd (perform E ?c w4))
         \<and> r = Some (Error (''failed to delete Drive file: '' @ errorMsg e))
         \<and> ledgerEvents (newEvents w w') = [] \<and> sheets w' = sheets w"
    if "callFails E (trace w4) ?c = Some e" for e
  proof -
    from delete_cases(1) [OF d that]
    have "fst ?D = Some (Error (''failed to delete Drive file: '' @ errorMsg e))"
      and "snd ?D = snd (perform E ?c w4)"
      and "ledgerEvents (newEvents w4 (snd ?D)) = []" and "sheets (snd ?D) = sheets w4"
      by blast+
    with le sh sh4 r show ?thesis by (simp add: prod_eq_iff)
  qed
  have c3: "r = None" if ok: "callFails E (trace w4) ?c = None"
  proof -
    obtain r2 v2 where g: "getParentFolderName E f (snd (perform E ?c w4)) = (r2, v2)"
      by (metis prod.exhaust)
    show ?thesis
      using delete_cases(2) [OF d ok, of _ v2] delete_cases(3) [OF d ok, of _ v2] g r
      by (cases r2) auto
  qed
  have c4: "w' = snd (perform E (RemoveAll tempDir) w5)
        \<and> ledgerEvents (newEvents w w') = [] \<and> sheets w' = sheets w"
    if "callFails E (trace w4) ?c = None"
      and "getParentFolderName E f (snd (perform E ?c w4)) = (Inl pErr, w5)" for pErr w5
  proof -
    from delete_cases(2) [OF d that]
    have "snd ?D = w5"
      and "ledgerEvents (newEvents w4 (snd ?D)) = []" and "sheets (snd ?D) = sheets w4"
      by blast+
    with le sh sh4 w' show ?thesis by simp
  qed
  have c5: "w' = snd (perform E (RemoveAll tempDir)
                    (snd (upsertSpreadsheetRow E spreadsheetID parentName
                            (formatCreatedTime E (file_CreatedTime f)) w5)))
             \<and> (\<exists>ok rest. ledgerEvents (newEvents w w')
                             = (ValuesGet spreadsheetID ''A:B'', ok) # rest)"
    if "callFails E (trace w4) ?c = None"
      and "getParentFolderName E f (snd (perform E ?c w4)) = (Inr parentName, w5)"
    for parentName w5
  proof -
    from delete_cases(3) [OF d that]
    have "snd ?D = snd (upsertSpreadsheetRow E spreadsheetID parentName
                            (formatCreatedTime E (file_CreatedTime f)) w5)"
      and "\<exists>ok rest. ledgerEvents (newEvents w4 (snd ?D))
                             = (ValuesGet spreadsheetID ''A:B'', ok) # rest"
      by blast+
    with le w' show ?thesis by simp
  qed
  have failed: "\<forall>e. callFails E (trace w4) ?c = Some e \<longrightarrow>
           ?D = (Some (Error (''failed to delete Drive file: '' @ errorMsg e)),
                  snd (perform E ?c w4))
         \<and> r = Some (Error (''failed to delete Drive file: '' @ errorMsg e))
         \<and> ledgerEvents (newEvents w w') = [] \<and> sheets w' = sheets w"
    using c2 by blast
  have deleted: "callFails E (trace w4) ?c = None \<longrightarrow>
          r = None
        \<and> (\<forall>pErr w5. getParentFolderName E f (snd (perform E ?c w4)) = (Inl pErr, w5) \<longrightarrow>
             w' = snd (perform E (RemoveAll tempDir) w5)
             \<and> ledgerEvents (newEvents w w') = [] \<and> sheets w' = sheets w)
        \<and> (\<forall>parentName w5.
             getParentFolderName E f (snd (perform E ?c w4)) = (Inr parentName, w5) \<longrightarrow>
             w' = snd (perform E (RemoveAll tempDir)
                    (snd (upsertSpreadsheetRow E spreadsheetID parentName
                            (formatCreatedTime E (file_CreatedTime f)) w5)))
             \<and> (\<exists>ok rest. ledgerEvents (newEvents w w')
                             = (ValuesGet spreadsheetID ''A:B'', ok) # rest))"
  proof (rule impI)
    assume ok: "callFails E (trace w4) ?c = None"
    from c3 [OF ok] c4 [OF ok] c5 [OF ok]
    show "r = None
        \<and> (\<forall>pErr w5. getParentFolderName E f (snd (perform E ?c w4)) = (Inl pErr, w5) \<longrightarrow>
             w' = snd (perform E (RemoveAll tempDir) w5)
             \<and> ledgerEvents (newEvents w w') = [] \<and> sheets w' = sheets w)
        \<and> (\<forall>parentName w5.
             getParentFolderName E f (snd (perform E ?c w4)) = (Inr parentName, w5) \<longrightarrow>
             w' = snd (perform E (RemoveAll tempDir)
                    (snd (upsertSpreadsheetRow E spreadsheetID parentName
                            (formatCreatedTime E (file_CreatedTime f)) w5)))
             \<and> (\<exists>ok rest. ledgerEvents (newEvents w w')
                             = (ValuesGet spreadsheetID ''A:B'', ok) # rest))"
      by (intro conjI allI impI) blast+
  qed
  from r w' c1 failed deleted show ?thesis by (intro conjI)
qed

theorem processFile_delete_before_ledger_witness:
  "processFile demoEnv ''sheet1'' bigFile ''srv'' [] [] ''db'' ''pw'' ''UPDATE t SET x = 1'' world0
     = (None, snd (processFile demoEnv ''sheet1'' bigFile ''srv'' [] [] ''db'' ''pw''
                     ''UPDATE t SET x = 1'' world0))
   \<and> storeEvents (trace (snd (processFile demoEnv ''sheet1'' bigFile ''srv'' [] [] ''db'' ''pw''
        ''UPDATE t SET x = 1'' world0)))
      = [(FilesDelete ''f1'', True), (ValuesGet ''sheet1'' ''A:B'', True),
         (ValuesAppend ''sheet1'' ''A:B''
            [[StringCell ''Kab01'', StringCell ''3/1/2025 00:00:00'']], True)]
   \<and> fst (processFile (failing isDelete) ''sheet1'' bigFile ''srv'' [] [] ''db'' ''pw''
        ''UPDATE t SET x = 1'' world0)
      = Some (Error ''failed to delete Drive file: exit status 1'')
   \<and> storeEvents (trace (snd (processFile (failing isDelete) ''sheet1'' bigFile ''srv'' [] []
        ''db'' ''pw'' ''UPDATE t SET x = 1'' world0)))
      = [(FilesDelete ''f1'', False)]
   \<and> fst (processFile (failing isFilesGet) ''sheet1'' bigFile ''srv'' [] [] ''db'' ''pw''
        ''UPDATE t SET x = 1'' world0) = None
   \<and> storeEvents (trace (snd (processFile (failing isFilesGet) ''sheet1'' bigFile ''srv'' [] []
        ''db'' ''pw'' ''UPDATE t SET x = 1'' world0)))
      = [(FilesDelete ''f1'', True)]"
proof -
  let ?F = "failing isDelete"
  let ?G = "failing isFilesGet"
  let ?run = "\<lambda>E. processFile E ''sheet1'' bigFile ''srv'' [] [] ''db'' ''pw''
                 ''UPDATE t SET x = 1'' world0"
  let ?w1 = "\<lambda>E. snd (createTempDir E world0)"
  let ?w2 = "\<lambda>E. snd (downloadAndExtract E bigFile ''/tmp/backup-1'' ''pw'' (?w1 E))"
  let ?bak = "''/tmp/backup-1/extracted/db.bak''"
  let ?w3 = "\<lambda>E. snd (restoreDB E ''srv'' [] [] ''db'' ?bak
                        (grantPermissions E ?bak ''srv'' (?w2 E)))"
  let ?w4 = "\<lambda>E. snd (runUpdateQuery E ''srv'' [] [] ''db'' ''UPDATE t SET x = 1'' (?w3 E))"
  let ?w5 = "\<lambda>E. snd (getParentFolderName E bigFile
                        (snd (perform E (FilesDelete (file_Id bigFile)) (?w4 E))))"
  have size: "\<not> file_Size bigFile < minFileSize"
    by (simp add: demo_defs minFileSize_def)
  have tmp: "createTempDir demoEnv world0 = (Inr ''/tmp/backup-1'', ?w1 demoEnv)"
    and tmpF: "createTempDir ?F world0 = (Inr ''/tmp/backup-1'', ?w1 ?F)"
    and tmpG: "createTempDir ?G world0 = (Inr ''/tmp/backup-1'', ?w1 ?G)"
    by (rule pair_snd, simp add: demo_defs isFilesGet_def run_defs)+
  have ext: "downloadAndExtract demoEnv bigFile ''/tmp/backup-1'' ''pw'' (?w1 demoEnv)
        = (Inr ?bak, ?w2 demoEnv)"
    and extF: "downloadAndExtract ?F bigFile ''/tmp/backup-1'' ''pw'' (?w1 ?F) = (Inr ?bak, ?w2 ?F)"
    and extG: "downloadAndExtract ?G bigFile ''/tmp/backup-1'' ''pw'' (?w1 ?G) = (Inr ?bak, ?w2 ?G)"
    by (rule pair_snd, simp add: demo_defs isFilesGet_def run_defs)+
  have rest: "restoreDB demoEnv ''srv'' [] [] ''db'' ?bak
        (grantPermissions demoEnv ?bak ''srv'' (?w2 demoEnv)) = (None, ?w3 demoEnv)"
    and restF: "restoreDB ?F ''srv'' [] [] ''db'' ?bak
        (grantPermissions ?F ?bak ''srv'' (?w2 ?F)) = (None, ?w3 ?F)"
    and restG: "restoreDB ?G ''srv'' [] [] ''db'' ?bak
        (grantPermissions ?G ?bak ''srv'' (?w2 ?G)) = (None, ?w3 ?G)"
    by (rule pair_snd, simp add: demo_defs isFilesGet_def restoreDB_def runCmd_def perform_def)+
  have upd: "runUpdateQuery demoEnv ''srv'' [] [] ''db'' ''UPDATE t SET x = 1'' (?w3 demoEnv)
        = (None, ?w4 demoEnv)"
    and updF: "runUpdateQuery ?F ''srv'' [] [] ''db'' ''UPDATE t SET x = 1'' (?w3 ?F)
        = (None, ?w4 ?F)"
    and updG: "runUpdateQuery ?G ''srv'' [] [] ''db'' ''UPDATE t SET x = 1'' (?w3 ?G)
        = (None, ?w4 ?G)"
    by (rule pair_snd,
        simp add: demo_defs isFilesGet_def runUpdateQuery_def runCmd_def perform_def)+
  have ok: "callFails demoEnv (trace (?w4 demoEnv)) (FilesDelete (file_Id bigFile)) = None"
    and ko: "callFails ?F (trace (?w4 ?F)) (FilesDelete (file_Id bigFile))
        = Some (Error ''exit status 1'')"
    and okG: "callFails ?G (trace (?w4 ?G)) (FilesDelete (file_Id bigFile)) = None"
    by (simp_all add: demo_defs isFilesGet_def)
  have par: "getParentFolderName demoEnv bigFile
        (snd (perform demoEnv (FilesDelete (file_Id bigFile)) (?w4 demoEnv)))
        = (Inr ''Kab01'', ?w5 demoEnv)"
    and parG: "getParentFolderName ?G bigFile
        (snd (perform ?G (FilesDelete (file_Id bigFile)) (?w4 ?G)))
        = (Inl (Error ''exit status 1''), ?w5 ?G)"
    by (rule pair_snd,
        simp add: demo_defs isFilesGet_def getParentFolderName_def filesGet_def perform_def
          Let_def)+
  from processFile_delete_before_ledger [where spreadsheetID = "''sheet1''",
      OF size tmp ext rest upd prod.collapse [symmetric]] ok par
  have a: "fst (?run demoEnv) = None"
    and b: "storeEvents (newEvents world0 (snd (?run demoEnv))) =
        (FilesDelete (file_Id bigFile), True)
          # ledgerEvents (newEvents world0 (snd (?run demoEnv)))"
    and u: "snd (?run demoEnv) = snd (perform demoEnv (RemoveAll ''/tmp/backup-1'')
        (snd (upsertSpreadsheetRow demoEnv ''sheet1'' ''Kab01''
                (formatCreatedTime demoEnv (file_CreatedTime bigFile)) (?w5 demoEnv))))"
    by (elim conjE, simp)+
  from processFile_delete_before_ledger [where spreadsheetID = "''sheet1''",
      OF size tmpF extF restF updF prod.collapse [symmetric]] ko
  have c: "fst (?run ?F) = Some (Error (''failed to delete Drive file: '' @ ''exit status 1''))"
    and d: "storeEvents (newEvents world0 (snd (?run ?F))) =
        (FilesDelete (file_Id bigFile), False)
          # ledgerEvents (newEvents world0 (snd (?run ?F)))"
    and e: "ledgerEvents (newEvents world0 (snd (?run ?F))) = []"
    by (elim conjE, simp)+
  from processFile_delete_before_ledger [where spreadsheetID = "''sheet1''",
      OF size tmpG extG restG updG prod.collapse [symmetric]] okG parG
  have g: "fst (?run ?G) = None"
    and h: "storeEvents (newEvents world0 (snd (?run ?G))) =
        (FilesDelete (file_Id bigFile), True)
          # ledgerEvents (newEvents world0 (snd (?run ?G)))"
    and i: "ledgerEvents (newEvents world0 (snd (?run ?G))) = []"
    by (elim conjE, simp)+
  have l: "ledgerEvents (newEvents world0 (snd (perform demoEnv (RemoveAll ''/tmp/backup-1'')
        (snd (upsertSpreadsheetRow demoEnv ''sheet1'' ''Kab01''
                (formatCreatedTime demoEnv (file_CreatedTime bigFile)) (?w5 demoEnv)))))) =
      [(ValuesGet ''sheet1'' ''A:B'', True),
       (ValuesAppend ''sheet1'' ''A:B''
          [[StringCell ''Kab01'', StringCell ''3/1/2025 00:00:00'']], True)]"
    by (simp add: demo_defs run_defs delete_defs restoreDB_def
          runUpdateQuery_def grantPermissions_def newEvents_def ledgerEvents_def)
  have n: "\<And>v. newEvents world0 v = trace v"
    by (simp add: newEvents_def world0_def)
  from a b c d e g h i l u n show ?thesis
    by (simp add: demo_defs prod_eq_iff)
qed

text \<open>A restored file whose parent folder cannot be looked up: every call up to the
  deletion succeeds, the file is deleted, and no ledger call follows.\<close>

theorem processFile_delete_before_ledger_counterexample:
  "fst (processFile (failing isFilesGet) ''sheet1'' bigFile ''srv'' [] [] ''db'' ''pw''
        ''UPDATE t SET x = 1'' world0) = None
   \<and> list_all snd (take 13 (trace (snd (processFile (failing isFilesGet) ''sheet1'' bigFile
        ''srv'' [] [] ''db'' ''pw'' ''UPDATE t SET x = 1'' world0))))
   \<and> drop 13 (trace (snd (processFile (failing isFilesGet) ''sheet1'' bigFile ''srv'' [] []
        ''db'' ''pw'' ''UPDATE t SET x = 1'' world0)))
      = [(Exec ''sqlcmd'' [''-S'', ''srv'', ''-d'', ''db'', ''-E'', ''-Q'', ''UPDATE t SET x = 1''],
          True),
         (FilesDelete ''f1'', True), (FilesGet ''p1'' ''id, name'', False),
         (RemoveAll ''/tmp/backup-1'', True)]
   \<and> ledgerEvents (trace (snd (processFile (failing isFilesGet) ''sheet1'' bigFile ''srv'' [] []
        ''db'' ''pw'' ''UPDATE t SET x = 1'' world0))) = []
   \<and> sheets (snd (processFile (failing isFilesGet) ''sheet1'' bigFile ''srv'' [] []
        ''db'' ''pw'' ''UPDATE t SET x = 1'' world0)) ''sheet1'' = []"
  by (simp add: processFile_def demo_defs isFilesGet_def run_defs delete_defs restoreDB_def
        runUpdateQuery_def grantPermissions_def minFileSize_def ledgerEvents_def)

section \<open>Failures of the restore and of the correction query\<close>

text \<open>
  C3. When the archive was extracted and then \<open>restoreDB\<close> fails, or \<open>restoreDB\<close>
  succeeds and \<open>runUpdateQuery\<close> fails, \<open>processFile\<close> returns that error; the run
  adds no deletion in the remote store and no call of the ledger, and the ledger is
  unchanged, so the file is still there for the next run.
\<close>

theorem processFile_restore_failure:
  assumes size: "\<not> file_Size f < minFileSize"
    and tmp: "createTempDir E w = (Inr tempDir, w1)"
    and ext: "downloadAndExtract E f tempDir password w1 = (Inr bakFile, w2)"
    and fail:
      "restoreDB E dbHost dbUser dbPass dbName bakFile (grantPermissions E bakFile dbHost w2)
         = (Some e, w3)
       \<or> (restoreDB E dbHost dbUser dbPass dbName bakFile (grantPermissions E bakFile dbHost w2)
            = (None, v)
          \<and> runUpdateQuery E dbHost dbUser dbPass dbName updateQuery v = (Some e, w3))"
  shows "processFile E spreadsheetID f dbHost dbUser dbPass dbName password updateQuery w
           = (Some e, snd (perform E (RemoveAll tempDir) w3))
       \<and> storeEvents (newEvents w (snd (processFile E spreadsheetID f dbHost dbUser dbPass
             dbName password updateQuery w))) = []
       \<and> sheets (snd (processFile E spreadsheetID f dbHost dbUser dbPass
             dbName password updateQuery w)) = sheets w"
proof -
  let ?g = "grantPermissions E bakFile dbHost w2"
  let ?end = "snd (perform E (RemoveAll tempDir) w3)"
  have q2: "quiet w ?g"
    using quiet_createTempDir [OF tmp] quiet_downloadAndExtract [OF ext]
      quiet_grantPermissions [of w2 E bakFile dbHost]
    by (blast intro: quiet_trans)
  from fail have res: "processFile E spreadsheetID f dbHost dbUser dbPass dbName password
      updateQuery w = (Some e, ?end) \<and> quiet ?g w3"
  proof
    assume r: "restoreDB E dbHost dbUser dbPass dbName bakFile ?g = (Some e, w3)"
    obtain r4 w4 where u: "runUpdateQuery E dbHost dbUser dbPass dbName updateQuery w3 = (r4, w4)"
      by (metis prod.exhaust)
    obtain r5 w5 where d: "deleteFileAndUpdateSpreadsheet E spreadsheetID f w4 = (r5, w5)"
      by (metis prod.exhaust)
    show ?thesis
      using processFile_after_extract [OF size tmp ext r u d] quiet_restoreDB [OF r] by simp
  next
    assume "restoreDB E dbHost dbUser dbPass dbName bakFile ?g = (None, v)
          \<and> runUpdateQuery E dbHost dbUser dbPass dbName updateQuery v = (Some e, w3)"
    then have r: "restoreDB E dbHost dbUser dbPass dbName bakFile ?g = (None, v)"
      and u: "runUpdateQuery E dbHost dbUser dbPass dbName updateQuery v = (Some e, w3)"
      by simp_all
    obtain r5 w5 where d: "deleteFileAndUpdateSpreadsheet E spreadsheetID f w3 = (r5, w5)"
      by (metis prod.exhaust)
    show ?thesis
      using processFile_after_extract [OF size tmp ext r u d]
        quiet_restoreDB [OF r] quiet_runUpdateQuery [OF u]
      by (auto intro: quiet_trans)
  qed
  then have "quiet w ?end"
    using q2 quiet_RemoveAll [of w3 E tempDir] by (blast intro: quiet_trans)
  with res show ?thesis by (simp add: quiet_def)
qed

theorem processFile_restore_failure_witness:
  "fst (processFile (failing isRestoreCmd) ''sheet1'' bigFile ''srv'' [] [] ''db'' ''pw''
      ''UPDATE t SET x = 1'' world0) = Some (Error ''restore failed: exit status 1'')
   \<and> storeEvents (newEvents world0 (snd (processFile (failing isRestoreCmd) ''sheet1'' bigFile
      ''srv'' [] [] ''db'' ''pw'' ''UPDATE t SET x = 1'' world0))) = []"
proof -
  let ?E = "failing isRestoreCmd"
  let ?w1 = "snd (createTempDir ?E world0)"
  let ?w2 = "snd (downloadAndExtract ?E bigFile ''/tmp/backup-1'' ''pw'' ?w1)"
  let ?bak = "''/tmp/backup-1/extracted/db.bak''"
  let ?g = "grantPermissions ?E ?bak ''srv'' ?w2"
  have size: "\<not> file_Size bigFile < minFileSize"
    by (simp add: demo_defs minFileSize_def)
  have tmp: "createTempDir ?E world0 = (Inr ''/tmp/backup-1'', ?w1)"
    by (rule pair_snd) (simp add: demo_defs createTempDir_def perform_def)
  have ext: "downloadAndExtract ?E bigFile ''/tmp/backup-1'' ''pw'' ?w1 = (Inr ?bak, ?w2)"
    by (rule pair_snd)
       (simp add: demo_defs downloadAndExtract_def downloadFile_def extract7z_def runCmd_def
          findBakFile_def walkFn_def hasSuffix_def createTempDir_def perform_def Let_def)
  have res: "restoreDB ?E ''srv'' [] [] ''db'' ?bak ?g =
      (Some (Error ''restore failed: exit status 1''), snd (restoreDB ?E ''srv'' [] [] ''db'' ?bak ?g))"
    by (rule pair_snd)
       (simp add: demo_defs restoreDB_def runCmd_def perform_def fileListArgs_def dataPathArgs_def
          sqlArgs_def restoreArgs_def restoreQuery_def singleUserQuery_def hasPrefix_def Let_def)
  from processFile_restore_failure [where spreadsheetID = "''sheet1''"
      and updateQuery = "''UPDATE t SET x = 1''", OF size tmp ext disjI1, OF res]
  show ?thesis by (elim conjE) simp
qed

section \<open>Single-user and multi-user mode\<close>

text \<open>
  C4. In \<open>restoreDB\<close>, after the file list query succeeded: if the single-user command
  fails, the function returns the error "failed to set database to single user" in the
  world right after that command, so the events it added are the two queries and the failed
  command, and neither the \<open>RESTORE\<close> command nor the multi-user command was run; if
  the single-user command and the \<open>RESTORE\<close> command succeed, \<open>restoreDB\<close> returns no
  error whatever the multi-user command returns.
\<close>

theorem restoreDB_access_mode_failures:
  assumes s1: "runCmd E ''sqlcmd'' (fileListArgs host user pass bakPath) w = ((out, None), w1)"
    and s2: "runCmd E ''sqlcmd'' (dataPathArgs host user pass) w1 = ((out2, e2), w2)"
    and s3: "runCmd E ''sqlcmd'' (sqlArgs host user pass @ [''-Q'', singleUserQuery dbName]) w2
               = ((out3, e3), w3)"
  shows "(\<forall>e. e3 = Some e \<longrightarrow>
            restoreDB E host user pass dbName bakPath w
              = (Some (Error (''failed to set database to single user: '' @ errorMsg e)), w3)
          \<and> newEvents w w3 =
              [(Exec ''sqlcmd'' (fileListArgs host user pass bakPath), True),
               (Exec ''sqlcmd'' (dataPathArgs host user pass), e2 = None),
               (Exec ''sqlcmd'' (sqlArgs host user pass @ [''-Q'', singleUserQuery dbName]),
                False)])
       \<and> (e3 = None \<longrightarrow>
            (\<forall>out4 w4 out5 e5 w5.
               runCmd E ''sqlcmd'' (restoreArgs E host user pass dbName bakPath
                   (fileListNames out) (resolveDataPath E out2 bakPath)) w3 = ((out4, None), w4)
               \<longrightarrow> runCmd E ''sqlcmd'' (sqlArgs host user pass @ [''-Q'', multiUserQuery dbName]) w4
                     = ((out5, e5), w5)
               \<longrightarrow> restoreDB E host user pass dbName bakPath w = (None, w5)))"
proof (intro conjI allI impI)
  fix e assume f: "e3 = Some e"
  obtain out4 e4 w4 where s4: "runCmd E ''sqlcmd'' (restoreArgs E host user pass dbName bakPath
      (fileListNames out) (resolveDataPath E out2 bakPath)) w3 = ((out4, e4), w4)"
    by (metis prod.exhaust)
  obtain out5 e5 w5 where s5: "runCmd E ''sqlcmd''
      (sqlArgs host user pass @ [''-Q'', multiUserQuery dbName]) w4 = ((out5, e5), w5)"
    by (metis prod.exhaust)
  from restoreDB_steps [OF s1 s2 s3 s4 s5] f
  show "restoreDB E host user pass dbName bakPath w
      = (Some (Error (''failed to set database to single user: '' @ errorMsg e)), w3)"
    by simp
  from runCmd_trace [OF s1] runCmd_trace [OF s2] runCmd_trace [OF s3] f
  show "newEvents w w3 =
      [(Exec ''sqlcmd'' (fileListArgs host user pass bakPath), True),
       (Exec ''sqlcmd'' (dataPathArgs host user pass), e2 = None),
       (Exec ''sqlcmd'' (sqlArgs host user pass @ [''-Q'', singleUserQuery dbName]), False)]"
    by (simp add: newEvents_def)
next
  fix out4 w4 out5 e5 w5
  assume n: "e3 = None"
    and s4: "runCmd E ''sqlcmd'' (restoreArgs E host user pass dbName bakPath
        (fileListNames out) (resolveDataPath E out2 bakPath)) w3 = ((out4, None), w4)"
    and s5: "runCmd E ''sqlcmd'' (sqlArgs host user pass @ [''-Q'', multiUserQuery dbName]) w4
        = ((out5, e5), w5)"
  from restoreDB_steps [OF s1 s2 s3 s4 s5] n
  show "restoreDB E host user pass dbName bakPath w = (None, w5)" by simp
qed

theorem restoreDB_access_mode_failures_witness:
  "restoreDB (failing isSingleUserCmd) ''srv'' [] [] ''db'' ''/t/db.bak'' world0
     = (Some (Error ''failed to set database to single user: exit status 1''),
        \<lparr>trace =
           [(Exec ''sqlcmd'' (fileListArgs ''srv'' [] [] ''/t/db.bak''), True),
            (Exec ''sqlcmd'' (dataPathArgs ''srv'' [] []), True),
            (Exec ''sqlcmd'' [''-S'', ''srv'', ''-d'', ''master'', ''-E'', ''-Q'',
               ''ALTER DATABASE db SET SINGLE_USER WITH ROLLBACK IMMEDIATE;''], False)],
         sheets = (\<lambda>s. [])\<rparr>)
   \<and> fst (restoreDB (failing isMultiUserCmd) ''srv'' [] [] ''db'' ''/t/db.bak'' world0) = None
   \<and> last (trace (snd (restoreDB (failing isMultiUserCmd) ''srv'' [] [] ''db'' ''/t/db.bak''
        world0)))
      = (Exec ''sqlcmd'' [''-S'', ''srv'', ''-d'', ''master'', ''-E'', ''-Q'',
           ''ALTER DATABASE db SET MULTI_USER;''], False)"
proof -
  let ?S = "failing isSingleUserCmd"
  let ?M = "failing isMultiUserCmd"
  let ?w1 = "\<lambda>E. snd (runCmd E ''sqlcmd'' (fileListArgs ''srv'' [] [] ''/t/db.bak'') world0)"
  let ?w2 = "\<lambda>E. snd (runCmd E ''sqlcmd'' (dataPathArgs ''srv'' [] []) (?w1 E))"
  let ?w3 = "\<lambda>E. snd (runCmd E ''sqlcmd''
      (sqlArgs ''srv'' [] [] @ [''-Q'', singleUserQuery ''db'']) (?w2 E))"
  let ?ra = "\<lambda>E. restoreArgs E ''srv'' [] [] ''db'' ''/t/db.bak'' (fileListNames [])
      (resolveDataPath E [] ''/t/db.bak'')"
  let ?w4 = "\<lambda>E. snd (runCmd E ''sqlcmd'' (?ra E) (?w3 E))"
  let ?w5 = "\<lambda>E. snd (runCmd E ''sqlcmd''
      (sqlArgs ''srv'' [] [] @ [''-Q'', multiUserQuery ''db'']) (?w4 E))"
  have s1: "runCmd ?S ''sqlcmd'' (fileListArgs ''srv'' [] [] ''/t/db.bak'') world0
        = (([], None), ?w1 ?S)"
    and m1: "runCmd ?M ''sqlcmd'' (fileListArgs ''srv'' [] [] ''/t/db.bak'') world0
        = (([], None), ?w1 ?M)"
    by (rule pair3_snd,
        simp_all add: demo_defs isSingleUserCmd_def isMultiUserCmd_def runCmd_def perform_def
          sql_defs)+
  have s2: "runCmd ?S ''sqlcmd'' (dataPathArgs ''srv'' [] []) (?w1 ?S) = (([], None), ?w2 ?S)"
    and m2: "runCmd ?M ''sqlcmd'' (dataPathArgs ''srv'' [] []) (?w1 ?M) = (([], None), ?w2 ?M)"
    by (rule pair3_snd,
        simp_all add: demo_defs isSingleUserCmd_def isMultiUserCmd_def runCmd_def perform_def
          sql_defs)+
  have s3: "runCmd ?S ''sqlcmd'' (sqlArgs ''srv'' [] [] @ [''-Q'', singleUserQuery ''db''])
        (?w2 ?S) = (([], Some (Error ''exit status 1'')), ?w3 ?S)"
    and m3: "runCmd ?M ''sqlcmd'' (sqlArgs ''srv'' [] [] @ [''-Q'', singleUserQuery ''db''])
        (?w2 ?M) = (([], None), ?w3 ?M)"
    by (rule pair3_snd,
        simp_all add: demo_defs isSingleUserCmd_def isMultiUserCmd_def runCmd_def perform_def
          sql_defs)+
  have m4: "runCmd ?M ''sqlcmd'' (?ra ?M) (?w3 ?M) = (([], None), ?w4 ?M)"
    by (rule pair3_snd,
        simp_all add: demo_defs isMultiUserCmd_def runCmd_def perform_def sql_defs Let_def)
  have m5: "runCmd ?M ''sqlcmd'' (sqlArgs ''srv'' [] [] @ [''-Q'', multiUserQuery ''db''])
        (?w4 ?M) = (([], Some (Error ''exit status 1'')), ?w5 ?M)"
    by (rule pair3_snd,
        simp_all add: demo_defs isMultiUserCmd_def runCmd_def perform_def sql_defs Let_def)
  from restoreDB_access_mode_failures [OF s1 s2 s3]
  have a: "restoreDB ?S ''srv'' [] [] ''db'' ''/t/db.bak'' world0
      = (Some (Error (''failed to set database to single user: '' @ ''exit status 1'')), ?w3 ?S)"
    by simp
  from restoreDB_access_mode_failures [OF m1 m2 m3] m4 m5
  have b: "restoreDB ?M ''srv'' [] [] ''db'' ''/t/db.bak'' world0 = (None, ?w5 ?M)"
    by blast
  have c: "?w3 ?S = \<lparr>trace =
           [(Exec ''sqlcmd'' (fileListArgs ''srv'' [] [] ''/t/db.bak''), True),
            (Exec ''sqlcmd'' (dataPathArgs ''srv'' [] []), True),
            (Exec ''sqlcmd'' [''-S'', ''srv'', ''-d'', ''master'', ''-E'', ''-Q'',
               ''ALTER DATABASE db SET SINGLE_USER WITH ROLLBACK IMMEDIATE;''], False)],
         sheets = (\<lambda>s. [])\<rparr>"
    by (simp add: demo_defs isSingleUserCmd_def runCmd_def perform_def sql_defs)
  have d: "last (trace (?w5 ?M)) = (Exec ''sqlcmd'' [''-S'', ''srv'', ''-d'', ''master'', ''-E'',
      ''-Q'', ''ALTER DATABASE db SET MULTI_USER;''], False)"
    by (simp add: demo_defs isMultiUserCmd_def runCmd_def perform_def sql_defs Let_def)
  from a b c d show ?thesis by simp
qed

section \<open>The file list of the backup\<close>

text \<open>
  C5. The names \<open>restoreDB\<close> takes from the output of the file list query are those of
  the specification: blank lines and lines with fewer than three columns are skipped, the
  first column is the logical name, a row is a log row exactly when its third column in
  upper case starts with \<open>L\<close> and a data row otherwise, and the last row of each kind
  wins. The fourth command \<open>restoreDB\<close> runs is \<open>sqlcmd\<close> with the statement
  \<open>RESTORE DATABASE dbName FROM DISK='bakPath' WITH REPLACE, MOVE 'data' TO '...',
  MOVE 'log' TO '...'\<close>, where \<open>data\<close> is the data name read from the output, or
  \<open>dbName\<close> when there is none, and \<open>log\<close> is the log name read from the output, or
  \<open>dbName + "_log"\<close> when there is none; when the output is empty after trimming they
  are \<open>dbName\<close> and \<open>dbName + "_log"\<close>.
\<close>

theorem fileListNames_manifest:
  "fileListNames out =
     (if trimSpace out = [] then ([], [])
      else manifestNames (split (CHR 0x0A) (trimSpace out)))
   \<and> (\<forall>w out1 w1 out2 e2 w2 out3 w3 names dataLogical logLogical dataPath.
        runCmd E ''sqlcmd'' (fileListArgs host user pass bakPath) w = ((out1, None), w1)
        \<longrightarrow> runCmd E ''sqlcmd'' (dataPathArgs host user pass) w1 = ((out2, e2), w2)
        \<longrightarrow> runCmd E ''sqlcmd'' (sqlArgs host user pass @ [''-Q'', singleUserQuery dbName]) w2
              = ((out3, None), w3)
        \<longrightarrow> names = (if trimSpace out1 = [] then ([], [])
                     else manifestNames (split (CHR 0x0A) (trimSpace out1)))
        \<longrightarrow> dataLogical = (if fst names = [] then dbName else fst names)
        \<longrightarrow> logLogical = (if snd names = [] then dbName @ ''_log'' else snd names)
        \<longrightarrow> dataPath = resolveDataPath E out2 bakPath
        \<longrightarrow> fst (newEvents w (snd (restoreDB E host user pass dbName bakPath w)) ! 3) =
              Exec ''sqlcmd''
                ([''-S'', host, ''-d'', ''master''] @
                 (if user = [] \<and> pass = [] then [''-E''] else [''-U'', user, ''-P'', pass]) @
                 [''-Q'',
                  ''RESTORE DATABASE '' @ dbName @
                  '' FROM DISK='' @ [CHR 0x27] @ bakPath @ [CHR 0x27] @
                  '' WITH REPLACE, MOVE '' @ [CHR 0x27] @ dataLogical @ [CHR 0x27] @
                  '' TO '' @ [CHR 0x27] @ filepathJoin E dataPath (dbName @ ''.mdf'') @ [CHR 0x27] @
                  '', MOVE '' @ [CHR 0x27] @ logLogical @ [CHR 0x27] @
                  '' TO '' @ [CHR 0x27] @ filepathJoin E dataPath (dbName @ ''_log.ldf'') @
                  [CHR 0x27]])
          \<and> (trimSpace out1 = [] \<longrightarrow>
                dataLogical = dbName \<and> logLogical = dbName @ ''_log''))"
proof (intro conjI allI impI)
  show "fileListNames out =
     (if trimSpace out = [] then ([], [])
      else manifestNames (split (CHR 0x0A) (trimSpace out)))"
    by (simp add: fileListNames_def Let_def foldl_fileListLine manifestNames_def)
next
  fix w out1 w1 out2 e2 w2 out3 w3 names dataLogical logLogical dataPath
  assume s1: "runCmd E ''sqlcmd'' (fileListArgs host user pass bakPath) w = ((out1, None), w1)"
    and s2: "runCmd E ''sqlcmd'' (dataPathArgs host user pass) w1 = ((out2, e2), w2)"
    and s3: "runCmd E ''sqlcmd'' (sqlArgs host user pass @ [''-Q'', singleUserQuery dbName]) w2
              = ((out3, None), w3)"
    and names: "names = (if trimSpace out1 = [] then ([], [])
                     else manifestNames (split (CHR 0x0A) (trimSpace out1)))"
    and dl: "dataLogical = (if fst names = [] then dbName else fst names)"
    and ll: "logLogical = (if snd names = [] then dbName @ ''_log'' else snd names)"
    and dp: "dataPath = resolveDataPath E out2 bakPath"
  let ?ra = "restoreArgs E host user pass dbName bakPath (fileListNames out1)
      (resolveDataPath E out2 bakPath)"
  obtain out4 e4 w4 where s4: "runCmd E ''sqlcmd'' ?ra w3 = ((out4, e4), w4)"
    by (metis prod.exhaust)
  obtain out5 e5 w5 where s5: "runCmd E ''sqlcmd''
      (sqlArgs host user pass @ [''-Q'', multiUserQuery dbName]) w4 = ((out5, e5), w5)"
    by (metis prod.exhaust)
  note t = runCmd_trace [OF s1] runCmd_trace [OF s2] runCmd_trace [OF s3] runCmd_trace [OF s4]
    runCmd_trace [OF s5]
  have "snd (restoreDB E host user pass dbName bakPath w) = w4
      \<or> snd (restoreDB E host user pass dbName bakPath w) = w5"
    using restoreDB_steps [OF s1 s2 s3 s4 s5] by (cases e4) simp_all
  then have ev: "fst (newEvents w (snd (restoreDB E host user pass dbName bakPath w)) ! 3)
      = Exec ''sqlcmd'' ?ra"
    using t by (auto simp: newEvents_def)
  have fl: "fileListNames out1 = names"
    unfolding names
    by (simp add: fileListNames_def Let_def foldl_fileListLine manifestNames_def)
  have "?ra = [''-S'', host, ''-d'', ''master''] @
                 (if user = [] \<and> pass = [] then [''-E''] else [''-U'', user, ''-P'', pass]) @
                 [''-Q'',
                  ''RESTORE DATABASE '' @ dbName @
                  '' FROM DISK='' @ [CHR 0x27] @ bakPath @ [CHR 0x27] @
                  '' WITH REPLACE, MOVE '' @ [CHR 0x27] @ dataLogical @ [CHR 0x27] @
                  '' TO '' @ [CHR 0x27] @ filepathJoin E dataPath (dbName @ ''.mdf'') @ [CHR 0x27] @
                  '', MOVE '' @ [CHR 0x27] @ logLogical @ [CHR 0x27] @
                  '' TO '' @ [CHR 0x27] @ filepathJoin E dataPath (dbName @ ''_log.ldf'') @
                  [CHR 0x27]]"
    unfolding fl dl ll dp
    by (simp add: restoreArgs_def restoreQuery_def quoted_def sqlArgs_def Let_def)
  with ev show "fst (newEvents w (snd (restoreDB E host user pass dbName bakPath w)) ! 3) =
              Exec ''sqlcmd''
                ([''-S'', host, ''-d'', ''master''] @
                 (if user = [] \<and> pass = [] then [''-E''] else [''-U'', user, ''-P'', pass]) @
                 [''-Q'',
                  ''RESTORE DATABASE '' @ dbName @
                  '' FROM DISK='' @ [CHR 0x27] @ bakPath @ [CHR 0x27] @
                  '' WITH REPLACE, MOVE '' @ [CHR 0x27] @ dataLogical @ [CHR 0x27] @
                  '' TO '' @ [CHR 0x27] @ filepathJoin E dataPath (dbName @ ''.mdf'') @ [CHR 0x27] @
                  '', MOVE '' @ [CHR 0x27] @ logLogical @ [CHR 0x27] @
                  '' TO '' @ [CHR 0x27] @ filepathJoin E dataPath (dbName @ ''_log.ldf'') @
                  [CHR 0x27]])"
    by (simp only:)
  {
    assume "trimSpace out1 = []"
    with names dl show "dataLogical = dbName" by simp
  }
  {
    assume "trimSpace out1 = []"
    with names ll show "logLogical = dbName @ ''_log''" by simp
  }
qed

theorem fileListNames_manifest_witness:
  "trimSpace demoManifest \<noteq> []
   \<and> fileListNames demoManifest = (''DataLog'', ''DataLog_log'')
   \<and> fst (runCmd manifestEnv ''sqlcmd'' (fileListArgs ''srv'' [] [] ''/t/db.bak'') world0)
       = (demoManifest, None)
   \<and> fst (trace (snd (restoreDB manifestEnv ''srv'' [] [] ''db'' ''/t/db.bak'' world0)) ! 3)
       = Exec ''sqlcmd''
           [''-S'', ''srv'', ''-d'', ''master'', ''-E'', ''-Q'',
            ''RESTORE DATABASE db FROM DISK='' @ [CHR 0x27] @ ''/t/db.bak'' @ [CHR 0x27] @
            '' WITH REPLACE, MOVE '' @ [CHR 0x27] @ ''DataLog'' @ [CHR 0x27] @
            '' TO '' @ [CHR 0x27] @ ''/t/db.mdf'' @ [CHR 0x27] @
            '', MOVE '' @ [CHR 0x27] @ ''DataLog_log'' @ [CHR 0x27] @
            '' TO '' @ [CHR 0x27] @ ''/t/db_log.ldf'' @ [CHR 0x27]]
   \<and> fst (runCmd demoEnv ''sqlcmd'' (fileListArgs ''srv'' [] [] ''/t/db.bak'') world0)
       = ([], None)
   \<and> trimSpace [] = []
   \<and> fst (trace (snd (restoreDB demoEnv ''srv'' [] [] ''db'' ''/t/db.bak'' world0)) ! 3)
       = Exec ''sqlcmd''
           [''-S'', ''srv'', ''-d'', ''master'', ''-E'', ''-Q'',
            ''RESTORE DATABASE db FROM DISK='' @ [CHR 0x27] @ ''/t/db.bak'' @ [CHR 0x27] @
            '' WITH REPLACE, MOVE '' @ [CHR 0x27] @ ''db'' @ [CHR 0x27] @
            '' TO '' @ [CHR 0x27] @ ''/t/db.mdf'' @ [CHR 0x27] @
            '', MOVE '' @ [CHR 0x27] @ ''db_log'' @ [CHR 0x27] @
            '' TO '' @ [CHR 0x27] @ ''/t/db_log.ldf'' @ [CHR 0x27]]"
proof -
  let ?w1 = "\<lambda>E. snd (runCmd E ''sqlcmd'' (fileListArgs ''srv'' [] [] ''/t/db.bak'') world0)"
  let ?w2 = "\<lambda>E. snd (runCmd E ''sqlcmd'' (dataPathArgs ''srv'' [] []) (?w1 E))"
  let ?w3 = "\<lambda>E. snd (runCmd E ''sqlcmd''
      (sqlArgs ''srv'' [] [] @ [''-Q'', singleUserQuery ''db'']) (?w2 E))"
  have ne: "trimSpace demoManifest \<noteq> []"
    by (simp add: demoManifest_def trim_eval)
  have ev: "manifestNames (split (CHR 0x0A) (trimSpace demoManifest))
      = (''DataLog'', ''DataLog_log'')"
    by (simp add: demoManifest_def manifestNames_def manifestRow_def isLogRow_def
          manifestColumns_def lastLogicalName_def hasPrefix_def toUpper_def toUpperByte_def
          trim_eval)
  have em: "trimSpace [] = []"
    by (rule trimSpace_Nil)
  have f1: "fst (runCmd manifestEnv ''sqlcmd'' (fileListArgs ''srv'' [] [] ''/t/db.bak'') world0)
        = (demoManifest, None)"
    and g1: "fst (runCmd demoEnv ''sqlcmd'' (fileListArgs ''srv'' [] [] ''/t/db.bak'') world0)
        = ([], None)"
    by (simp_all add: manifestEnv_def demoEnv_def runCmd_def perform_def Let_def)
  note s1 = pair_snd [OF f1] and t1 = pair_snd [OF g1]
  have s2: "runCmd manifestEnv ''sqlcmd'' (dataPathArgs ''srv'' [] []) (?w1 manifestEnv)
        = (([], None), ?w2 manifestEnv)"
    and s3: "runCmd manifestEnv ''sqlcmd''
          (sqlArgs ''srv'' [] [] @ [''-Q'', singleUserQuery ''db'']) (?w2 manifestEnv)
        = (([], None), ?w3 manifestEnv)"
    by (rule pair3_snd;
        simp add: manifestEnv_def demoEnv_def runCmd_def perform_def Let_def sql_defs)+
  have t2: "runCmd demoEnv ''sqlcmd'' (dataPathArgs ''srv'' [] []) (?w1 demoEnv)
        = (([], None), ?w2 demoEnv)"
    and t3: "runCmd demoEnv ''sqlcmd''
          (sqlArgs ''srv'' [] [] @ [''-Q'', singleUserQuery ''db'']) (?w2 demoEnv)
        = (([], None), ?w3 demoEnv)"
    by (rule pair3_snd; simp add: demoEnv_def runCmd_def perform_def Let_def)+
  have dp: "resolveDataPath manifestEnv [] ''/t/db.bak'' = ''/t''"
    "resolveDataPath demoEnv [] ''/t/db.bak'' = ''/t''"
    by (simp_all add: resolveDataPath_def trimSpace_Nil manifestEnv_def demoEnv_def)
  have n: "\<And>v. newEvents world0 v = trace v"
    by (simp add: newEvents_def world0_def)
  note m = fileListNames_manifest [where out = demoManifest and E = manifestEnv
      and dbName = "''db''"]
  from m [THEN conjunct1] ne ev
  have a: "fileListNames demoManifest = (''DataLog'', ''DataLog_log'')"
    by simp
  from m [THEN conjunct2, rule_format, OF s1 s2 s3 refl refl refl refl] ne ev dp n
  have b: "fst (trace (snd (restoreDB manifestEnv ''srv'' [] [] ''db'' ''/t/db.bak'' world0)) ! 3)
       = Exec ''sqlcmd''
           [''-S'', ''srv'', ''-d'', ''master'', ''-E'', ''-Q'',
            ''RESTORE DATABASE db FROM DISK='' @ [CHR 0x27] @ ''/t/db.bak'' @ [CHR 0x27] @
            '' WITH REPLACE, MOVE '' @ [CHR 0x27] @ ''DataLog'' @ [CHR 0x27] @
            '' TO '' @ [CHR 0x27] @ ''/t/db.mdf'' @ [CHR 0x27] @
            '', MOVE '' @ [CHR 0x27] @ ''DataLog_log'' @ [CHR 0x27] @
            '' TO '' @ [CHR 0x27] @ ''/t/db_log.ldf'' @ [CHR 0x27]]"
    by (simp add: manifestEnv_def demoEnv_def)
  from fileListNames_manifest [where E = demoEnv and dbName = "''db''", THEN conjunct2,
      rule_format, OF t1 t2 t3 refl refl refl refl] em dp n
  have c: "fst (trace (snd (restoreDB demoEnv ''srv'' [] [] ''db'' ''/t/db.bak'' world0)) ! 3)
       = Exec ''sqlcmd''
           [''-S'', ''srv'', ''-d'', ''master'', ''-E'', ''-Q'',
            ''RESTORE DATABASE db FROM DISK='' @ [CHR 0x27] @ ''/t/db.bak'' @ [CHR 0x27] @
            '' WITH REPLACE, MOVE '' @ [CHR 0x27] @ ''db'' @ [CHR 0x27] @
            '' TO '' @ [CHR 0x27] @ ''/t/db.mdf'' @ [CHR 0x27] @
            '', MOVE '' @ [CHR 0x27] @ ''db_log'' @ [CHR 0x27] @
            '' TO '' @ [CHR 0x27] @ ''/t/db_log.ldf'' @ [CHR 0x27]]"
    by (simp add: demoEnv_def)
  from ne a f1 b g1 em c show ?thesis
    by simp
qed

section \<open>The data path\<close>

text \<open>
  C6. The claim is that a failed data path query makes \<open>restoreDB\<close> fall back to the
  directory of the backup file, as the comment in the code says. The code looks at the
  output only: here the query fails after printing a message, the data path is that
  message and not the directory \<open>/t\<close> of the backup file, and the \<open>RESTORE\<close> command
  moves the files under it.
\<close>

theorem restoreDB_failed_data_path_query:
  "fst (runCmd noisyEnv ''sqlcmd'' (dataPathArgs ''srv'' [] []) world0)
     = (''Sqlcmd: Error: Login timeout expired.'' @ [CHR 0x0D, CHR 0x0A],
        Some (Error ''exit status 1''))
   \<and> filepathDir noisyEnv ''/t/db.bak'' = ''/t''
   \<and> resolveDataPath noisyEnv (''Sqlcmd: Error: Login timeout expired.'' @ [CHR 0x0D, CHR 0x0A])
         ''/t/db.bak'' = ''Sqlcmd: Error: Login timeout expired.''
   \<and> fst (trace (snd (restoreDB noisyEnv ''srv'' [] [] ''db'' ''/t/db.bak'' world0)) ! 3)
     = Exec ''sqlcmd'' (sqlArgs ''srv'' [] [] @
         [''-Q'', restoreQuery ''db'' ''/t/db.bak'' ''db''
                    ''Sqlcmd: Error: Login timeout expired./db.mdf'' ''db_log''
                    ''Sqlcmd: Error: Login timeout expired./db_log.ldf''])"
proof -
  have r: "resolveDataPath noisyEnv
      (''Sqlcmd: Error: Login timeout expired.'' @ [CHR 0x0D, CHR 0x0A]) ''/t/db.bak''
      = ''Sqlcmd: Error: Login timeout expired.''"
    by (simp add: resolveDataPath_def equalFold_def toUpper_def toUpperByte_def trim_eval)
  have n: "fileListNames [] = ([], [])"
    by (simp add: fileListNames_def trimSpace_Nil)
  have a: "fst (runCmd noisyEnv ''sqlcmd'' (dataPathArgs ''srv'' [] []) world0)
     = (''Sqlcmd: Error: Login timeout expired.'' @ [CHR 0x0D, CHR 0x0A],
        Some (Error ''exit status 1''))"
    by (simp add: noisyEnv_def demo_defs isDataPathCmd_def runCmd_def perform_def)
  have d: "filepathDir noisyEnv ''/t/db.bak'' = ''/t''"
    by (simp add: noisyEnv_def demo_defs)
  have e: "fst (trace (snd (restoreDB noisyEnv ''srv'' [] [] ''db'' ''/t/db.bak'' world0)) ! 3)
     = Exec ''sqlcmd'' (restoreArgs noisyEnv ''srv'' [] [] ''db'' ''/t/db.bak'' (fileListNames [])
         (resolveDataPath noisyEnv
            (''Sqlcmd: Error: Login timeout expired.'' @ [CHR 0x0D, CHR 0x0A]) ''/t/db.bak''))"
    by (simp add: restoreDB_def runCmd_def perform_def noisyEnv_def demoEnv_def world0_def
          isDataPathCmd_def dataPathArgs_def fileListArgs_def sqlArgs_def)
  have f: "restoreArgs noisyEnv ''srv'' [] [] ''db'' ''/t/db.bak'' ([], [])
      ''Sqlcmd: Error: Login timeout expired.''
      = sqlArgs ''srv'' [] [] @
         [''-Q'', restoreQuery ''db'' ''/t/db.bak'' ''db''
                    ''Sqlcmd: Error: Login timeout expired./db.mdf'' ''db_log''
                    ''Sqlcmd: Error: Login timeout expired./db_log.ldf'']"
    by (simp add: restoreArgs_def noisyEnv_def demoEnv_def)
  from a d r e f n show ?thesis by simp
qed

section \<open>The ledger upsert\<close>

text \<open>
  C7, as amended. When \<open>upsert(K, T1)\<close> and then \<open>upsert(K, T2)\<close> both succeed, each
  is the upsert of the specification: it overwrites column B of the first row matching
  \<open>K\<close> in place (no row before it matches), and appends the row \<open>[K, T]\<close> only when
  no row matches. Afterwards the first row of \<open>K\<close> has \<open>T2\<close> in column B and the
  other rows of \<open>K\<close> are the ones the ledger had before, so the number of rows of
  \<open>K\<close> is the one before, or 1 when there was none: no duplicate is created. When the
  ledger had at most one row of \<open>K\<close>, it has exactly one afterwards, with \<open>T2\<close> in
  column B.
\<close>

theorem upsertSpreadsheetRow_twice:
  assumes u1: "upsertSpreadsheetRow E sid kab t1 w = (None, w1)"
    and u2: "upsertSpreadsheetRow E sid kab t2 w1 = (None, w2)"
  shows "sheets w1 sid = upsertedRows kab t1 (sheets w sid)
    \<and> sheets w2 sid = upsertedRows kab t2 (sheets w1 sid)
    \<and> (\<forall>i. findRow kab (sheets w sid) 0 = Some i \<longrightarrow>
          i < length (sheets w sid) \<and> rowMatches kab (sheets w sid ! i)
          \<and> (\<forall>j<i. \<not> rowMatches kab (sheets w sid ! j)))
    \<and> (findRow kab (sheets w sid) 0 = None \<longrightarrow> keyRows kab (sheets w sid) = [])
    \<and> (\<exists>row. rowMatches kab row \<and> columnB row = Some (StringCell t2)
          \<and> keyRows kab (sheets w2 sid) = row # tl (keyRows kab (sheets w sid)))
    \<and> (length (keyRows kab (sheets w sid)) \<le> 1 \<longrightarrow>
          (\<exists>row. keyRows kab (sheets w2 sid) = [row] \<and> columnB row = Some (StringCell t2)))
    \<and> length (keyRows kab (sheets w2 sid)) = max 1 (length (keyRows kab (sheets w sid)))"
proof -
  let ?r0 = "sheets w sid"
  have s1: "sheets w1 sid = upsertedRows kab t1 ?r0" using u1 by (rule upsert_sheet)
  have s2: "sheets w2 sid = upsertedRows kab t2 (sheets w1 sid)" using u2 by (rule upsert_sheet)
  obtain row1 where k1: "keyRows kab (sheets w1 sid) = row1 # tl (keyRows kab ?r0)"
    using keyRows_upserted [of kab t1 ?r0] s1 by auto
  obtain row2 where m2: "rowMatches kab row2" and b2: "columnB row2 = Some (StringCell t2)"
    and k2: "keyRows kab (sheets w2 sid) = row2 # tl (keyRows kab (sheets w1 sid))"
    using keyRows_upserted [of kab t2 "sheets w1 sid"] s2 by auto
  from k1 k2 have k: "keyRows kab (sheets w2 sid) = row2 # tl (keyRows kab ?r0)" by simp
  have one: "keyRows kab (sheets w2 sid) = [row2]" if "length (keyRows kab ?r0) \<le> 1"
  proof -
    from that have "tl (keyRows kab ?r0) = []" by (cases "keyRows kab ?r0") auto
    with k show ?thesis by simp
  qed
  have len: "length (keyRows kab (sheets w2 sid)) = max 1 (length (keyRows kab ?r0))"
    using k by (cases "keyRows kab ?r0") auto
  from s1 s2 m2 b2 k one len findRow_first [of kab ?r0] findRow_None [of kab ?r0 0]
  show ?thesis by blast
qed

theorem upsertSpreadsheetRow_twice_witness:
  "length (keyRows ''Kab01'' (sheets oneWorld ''sheet1'')) \<le> 1
   \<and> fst (upsertSpreadsheetRow demoEnv ''sheet1'' ''Kab01'' ''T1'' oneWorld) = None
   \<and> fst (upsertSpreadsheetRow demoEnv ''sheet1'' ''Kab01'' ''T2''
        (snd (upsertSpreadsheetRow demoEnv ''sheet1'' ''Kab01'' ''T1'' oneWorld))) = None
   \<and> keyRows ''Kab01'' (sheets (snd (upsertSpreadsheetRow demoEnv ''sheet1'' ''Kab01'' ''T2''
        (snd (upsertSpreadsheetRow demoEnv ''sheet1'' ''Kab01'' ''T1'' oneWorld)))) ''sheet1'')
      = [[StringCell '' Kab01 '', StringCell ''T2'']]"
proof -
  let ?w1 = "snd (upsertSpreadsheetRow demoEnv ''sheet1'' ''Kab01'' ''T1'' oneWorld)"
  let ?w2 = "snd (upsertSpreadsheetRow demoEnv ''sheet1'' ''Kab01'' ''T2'' ?w1)"
  have t: "trimSpace '' Kab01 '' = ''Kab01''" "trimSpace ''Kab01'' = ''Kab01''"
    "trimSpace ''Kab00'' = ''Kab00''"
    by (simp_all add: trim_eval)
  have k0: "keyRows ''Kab01'' (sheets oneWorld ''sheet1'') = [[StringCell '' Kab01 '']]"
    by (simp add: oneWorld_def keyRows_def t)
  have f1: "fst (upsertSpreadsheetRow demoEnv ''sheet1'' ''Kab01'' ''T1'' oneWorld) = None"
    by (simp add: oneWorld_def demoEnv_ok upsert_defs t)
  have u1: "upsertSpreadsheetRow demoEnv ''sheet1'' ''Kab01'' ''T1'' oneWorld = (None, ?w1)"
    using f1 by (rule pair_snd)
  have w1: "sheets ?w1 ''sheet1'' = [[StringCell ''Kab00'', StringCell ''x''],
      [StringCell '' Kab01 '', StringCell ''T1'']]"
    by (simp add: oneWorld_def demoEnv_ok upsert_defs t setCell_def)
  have f2: "fst (upsertSpreadsheetRow demoEnv ''sheet1'' ''Kab01'' ''T2'' ?w1) = None"
    by (simp add: upsertSpreadsheetRow_def [of _ _ _ "''T2''"] valuesGet_def
          valuesUpdate_def perform_def Let_def w1 t demoEnv_ok itoa_digit digitChar_def
          digitVal_def columnIndex_def upt_rec)
  have u2: "upsertSpreadsheetRow demoEnv ''sheet1'' ''Kab01'' ''T2'' ?w1 = (None, ?w2)"
    using f2 by (rule pair_snd)
  from upsertSpreadsheetRow_twice [OF u1 u2] k0
  obtain row where r: "keyRows ''Kab01'' (sheets ?w2 ''sheet1'') = [row]"
    and b: "columnB row = Some (StringCell ''T2'')"
    and s2: "sheets ?w2 ''sheet1'' = upsertedRows ''Kab01'' ''T2'' (sheets ?w1 ''sheet1'')"
    by auto
  have "upsertedRows ''Kab01'' ''T2'' (sheets ?w1 ''sheet1'')
      = [[StringCell ''Kab00'', StringCell ''x''], [StringCell '' Kab01 '', StringCell ''T2'']]"
    by (simp add: w1 upsertedRows_def setB_def t)
  with s2 have "keyRows ''Kab01'' (sheets ?w2 ''sheet1'') = [[StringCell '' Kab01 '', StringCell ''T2'']]"
    by (simp add: keyRows_def t)
  with k0 f1 f2 show ?thesis by simp
qed

text \<open>A ledger that holds two rows of the key holds two rows of it after the two
  upserts.\<close>

theorem upsertSpreadsheetRow_twice_counterexample:
  "fst (upsertSpreadsheetRow demoEnv ''sheet1'' ''Kab01'' ''T1'' dupWorld) = None
   \<and> fst (upsertSpreadsheetRow demoEnv ''sheet1'' ''Kab01'' ''T2''
        (snd (upsertSpreadsheetRow demoEnv ''sheet1'' ''Kab01'' ''T1'' dupWorld))) = None
   \<and> sheets (snd (upsertSpreadsheetRow demoEnv ''sheet1'' ''Kab01'' ''T2''
        (snd (upsertSpreadsheetRow demoEnv ''sheet1'' ''Kab01'' ''T1'' dupWorld)))) ''sheet1''
      = [[StringCell ''Kab01'', StringCell ''T2''], [StringCell ''Kab01'', StringCell ''older'']]"
proof -
  let ?w1 = "snd (upsertSpreadsheetRow demoEnv ''sheet1'' ''Kab01'' ''T1'' dupWorld)"
  have w1: "fst (upsertSpreadsheetRow demoEnv ''sheet1'' ''Kab01'' ''T1'' dupWorld) = None
      \<and> sheets ?w1 ''sheet1''
        = [[StringCell ''Kab01'', StringCell ''T1''], [StringCell ''Kab01'', StringCell ''older'']]"
    by (simp add: dupWorld_def demoEnv_ok upsert_defs setCell_def)
  then show ?thesis
    by (simp add: upsertSpreadsheetRow_def [of _ _ _ "''T2''"] valuesGet_def
          valuesUpdate_def perform_def Let_def demoEnv_ok itoa_digit digitChar_def
          digitVal_def columnIndex_def upt_rec setCell_def)
qed

section \<open>Files below the size threshold\<close>

text \<open>
  C8. For a candidate file whose declared size is below 10 KiB, \<open>processFile\<close> is
  \<open>deleteSmallFile\<close>: the one event it adds is the deletion of the source file in the
  remote store (no scratch directory, no download, extraction or restore), and the ledger
  is unchanged.
\<close>

theorem processFile_small_file:
  assumes "file_Size f < 10 * 1024"
  shows "processFile E spreadsheetID f dbHost dbUser dbPass dbName password updateQuery w =
           deleteSmallFile E f w
       \<and> newEvents w (snd (processFile E spreadsheetID f dbHost dbUser dbPass dbName
                   password updateQuery w)) =
           [(FilesDelete (file_Id f), callFails E (trace w) (FilesDelete (file_Id f)) = None)]
       \<and> sheets (snd (processFile E spreadsheetID f dbHost dbUser dbPass dbName
                   password updateQuery w)) = sheets w"
  using assms
  by (simp add: processFile_def minFileSize_def deleteSmallFile_def perform_def newEvents_def
           Let_def split: option.splits)

theorem processFile_small_file_witness:
  "file_Size demoFile < 10 * 1024
   \<and> processFile demoEnv ''sheet1'' demoFile ''srv'' [] [] ''db'' ''pw'' ''UPDATE t SET x = 1'' world0
       = (None, \<lparr>trace = [(FilesDelete ''f1'', True)], sheets = (\<lambda>s. [])\<rparr>)"
  using processFile_small_file [of demoFile demoEnv "''sheet1''" "''srv''" "[]" "[]" "''db''" "''pw''"
     "''UPDATE t SET x = 1''" world0]
  by (simp add: demoFile_def demoEnv_def world0_def deleteSmallFile_def perform_def)

section \<open>Finding the backup file\<close>

text \<open>
  C9, as amended. When \<open>filepath.Walk\<close> passes no error (and no empty path) to the
  function it is given, \<open>findBakFile\<close> returns the path of the last entry visited, file
  or directory, whose name ends in \<open>.bak\<close>, and the error "no .bak file found" exactly
  when no visited entry has such a name. When \<open>Walk\<close> passes an error, \<open>findBakFile\<close>
  returns the first such error, whatever was visited before.
\<close>

theorem findBakFile_last_visit:
  "((\<forall>v\<in>set (walkVisits E (trace w) dir). visit_err v = None \<and> visit_path v \<noteq> []) \<longrightarrow>
      fst (findBakFile E dir w) =
        (if bakVisits (walkVisits E (trace w) dir) = [] then Inl (Error ''no .bak file found'')
         else Inr (visit_path (last (bakVisits (walkVisits E (trace w) dir))))))
   \<and> (\<forall>v e. find (\<lambda>v. visit_err v \<noteq> None) (walkVisits E (trace w) dir) = Some v
          \<longrightarrow> visit_err v = Some e \<longrightarrow> fst (findBakFile E dir w) = Inl e)"
proof (intro conjI allI impI)
  let ?vs = "walkVisits E (trace w) dir"
  assume ok: "\<forall>v\<in>set ?vs. visit_err v = None \<and> visit_path v \<noteq> []"
  then have w: "walk ?vs [] = (if bakVisits ?vs = [] then [] else visit_path (last (bakVisits ?vs)), None)"
    by (simp add: walk_no_error)
  have ne: "visit_path (last (bakVisits ?vs)) \<noteq> []" if "bakVisits ?vs \<noteq> []"
  proof -
    from that have "last (bakVisits ?vs) \<in> set (bakVisits ?vs)" by (rule last_in_set)
    then have "last (bakVisits ?vs) \<in> set ?vs" by (simp add: bakVisits_def)
    with ok show ?thesis by blast
  qed
  from w ne show "fst (findBakFile E dir w) =
        (if bakVisits ?vs = [] then Inl (Error ''no .bak file found'')
         else Inr (visit_path (last (bakVisits ?vs))))"
    by (simp add: findBakFile_def Let_def)
next
  fix v e
  assume "find (\<lambda>v. visit_err v \<noteq> None) (walkVisits E (trace w) dir) = Some v"
    and "visit_err v = Some e"
  with walk_error [of "walkVisits E (trace w) dir" v "[]"]
  have "snd (walk (walkVisits E (trace w) dir) []) = Some e" by simp
  then obtain b where "walk (walkVisits E (trace w) dir) [] = (b, Some e)"
    by (cases "walk (walkVisits E (trace w) dir) []") auto
  then show "fst (findBakFile E dir w) = Inl e"
    by (simp add: findBakFile_def Let_def)
qed

theorem findBakFile_last_visit_witness:
  "list_all (\<lambda>v. visit_err v = None \<and> visit_path v \<noteq> [])
      (walkVisits demoEnv (trace world0) ''/x'')
   \<and> fst (findBakFile demoEnv ''/x'' world0) = Inr ''/x/db.bak''
   \<and> find (\<lambda>v. visit_err v \<noteq> None) (walkVisits deniedEnv (trace world0) ''/x'')
       = Some \<lparr>visit_path = ''/x/sub'', visit_name = ''sub'', visit_isDir = True,
                visit_err = Some (Error ''permission denied'')\<rparr>
   \<and> fst (findBakFile deniedEnv ''/x'' world0) = Inl (Error ''permission denied'')"
proof -
  have ok: "\<forall>v\<in>set (walkVisits demoEnv (trace world0) ''/x'').
      visit_err v = None \<and> visit_path v \<noteq> []"
    by (simp add: demoEnv_def)
  have b: "bakVisits (walkVisits demoEnv (trace world0) ''/x'')
      = [\<lparr>visit_path = ''/x/db.bak'', visit_name = ''db.bak'', visit_isDir = False,
           visit_err = None\<rparr>]"
    by (simp add: demoEnv_def bakVisits_def hasSuffix_def)
  have f: "find (\<lambda>v. visit_err v \<noteq> None) (walkVisits deniedEnv (trace world0) ''/x'')
       = Some \<lparr>visit_path = ''/x/sub'', visit_name = ''sub'', visit_isDir = True,
                visit_err = Some (Error ''permission denied'')\<rparr>"
    by (simp add: deniedEnv_def demoEnv_def)
  from findBakFile_last_visit [of demoEnv world0 "''/x''"] ok b
  have x: "fst (findBakFile demoEnv ''/x'' world0) = Inr ''/x/db.bak''"
    by simp
  from findBakFile_last_visit [of deniedEnv world0 "''/x''"] f
  have y: "fst (findBakFile deniedEnv ''/x'' world0) = Inl (Error ''permission denied'')"
    by simp
  from ok x f y show ?thesis by (simp add: list_all_iff)
qed

text \<open>
  A directory that cannot be read, visited after a backup file: the error is returned, not
  the path. A directory named like a backup file, visited last: its path is returned.
\<close>

theorem findBakFile_last_visit_counterexample:
  "walkVisits deniedEnv (trace world0) ''/x'' =
     [\<lparr>visit_path = ''/x'', visit_name = ''extracted'', visit_isDir = True, visit_err = None\<rparr>,
      \<lparr>visit_path = ''/x/a.bak'', visit_name = ''a.bak'', visit_isDir = False,
         visit_err = None\<rparr>,
      \<lparr>visit_path = ''/x/sub'', visit_name = ''sub'', visit_isDir = True,
         visit_err = Some (Error ''permission denied'')\<rparr>]
   \<and> fst (findBakFile deniedEnv ''/x'' world0) = Inl (Error ''permission denied'')
   \<and> walkVisits bakDirEnv (trace world0) ''/x'' =
     [\<lparr>visit_path = ''/x'', visit_name = ''extracted'', visit_isDir = True, visit_err = None\<rparr>,
      \<lparr>visit_path = ''/x/a.bak'', visit_name = ''a.bak'', visit_isDir = False,
         visit_err = None\<rparr>,
      \<lparr>visit_path = ''/x/old.bak'', visit_name = ''old.bak'', visit_isDir = True,
         visit_err = None\<rparr>]
   \<and> fst (findBakFile bakDirEnv ''/x'' world0) = Inr ''/x/old.bak''"
  by (simp add: deniedEnv_def bakDirEnv_def demoEnv_def world0_def findBakFile_def walkFn_def
        hasSuffix_def)

section \<open>A creation time that does not parse\<close>

text \<open>
  C10. When \<open>downloadAndExtract\<close> fails and the creation time of the file does not
  parse, \<open>shouldDelete\<close> is false and the file is handled as a young one:
  \<open>processFile\<close> returns the error, nothing is deleted, no ledger call is made and the
  ledger is unchanged.
\<close>

theorem processFile_unparsed_time:
  assumes size: "\<not> file_Size f < minFileSize"
    and tmp: "createTempDir E w = (Inr tempDir, w1)"
    and ext: "downloadAndExtract E f tempDir password w1 = (Inl e, w2)"
    and parse: "parseRFC3339 E (file_CreatedTime f) = None"
  shows "\<not> shouldDelete E f w2
       \<and> processFile E spreadsheetID f dbHost dbUser dbPass dbName password updateQuery w
           = (Some e, snd (perform E (RemoveAll tempDir) w2))
       \<and> storeEvents (newEvents w (snd (processFile E spreadsheetID f dbHost dbUser dbPass
             dbName password updateQuery w))) = []
       \<and> sheets (snd (processFile E spreadsheetID f dbHost dbUser dbPass
             dbName password updateQuery w)) = sheets w"
proof -
  let ?end = "snd (perform E (RemoveAll tempDir) w2)"
  from parse have sd: "\<not> shouldDelete E f w2"
    by (simp add: shouldDelete_def)
  with processFile_extract_failure [OF size tmp ext]
  have res: "processFile E spreadsheetID f dbHost dbUser dbPass dbName password updateQuery w
           = (Some e, ?end)"
    by simp
  have "quiet w ?end"
    using quiet_createTempDir [OF tmp] quiet_downloadAndExtract [OF ext]
      quiet_RemoveAll [of w2 E tempDir]
    by (blast intro: quiet_trans)
  with sd res show ?thesis by (simp add: quiet_def)
qed

theorem processFile_unparsed_time_witness:
  "parseRFC3339 (failing is7z) (file_CreatedTime oddFile) = None
   \<and> processFile (failing is7z) ''sheet1'' oddFile ''srv'' [] [] ''db'' ''pw''
        ''UPDATE t SET x = 1'' world0
     = (Some (Error ''failed to extract 7z: exit status 1''),
        \<lparr>trace = [(MkdirTemp [] ''backup-*'', True), (FilesDownload ''f1'', True),
                  (OsCreate ''/tmp/backup-1/Susenas2025M_01.7z'', True),
                  (IoCopy ''/tmp/backup-1/Susenas2025M_01.7z'', True),
                  (Exec ''7z'' [''x'', ''-ppw'', ''/tmp/backup-1/Susenas2025M_01.7z'',
                                ''-o/tmp/backup-1/extracted''], False),
                  (RemoveAll ''/tmp/backup-1'', True)],
         sheets = (\<lambda>s. [])\<rparr>)"
proof -
  let ?E = "failing is7z"
  let ?w1 = "snd (createTempDir ?E world0)"
  let ?w2 = "snd (downloadAndExtract ?E oddFile ''/tmp/backup-1'' ''pw'' ?w1)"
  have size: "\<not> file_Size oddFile < minFileSize"
    by (simp add: demo_defs oddFile_def minFileSize_def)
  have parse: "parseRFC3339 ?E (file_CreatedTime oddFile) = None"
    by (simp add: demo_defs oddFile_def)
  have tmp: "createTempDir ?E world0 = (Inr ''/tmp/backup-1'', ?w1)"
    by (rule pair_snd) (simp add: demo_defs is7z_def run_defs)
  have ext: "downloadAndExtract ?E oddFile ''/tmp/backup-1'' ''pw'' ?w1
      = (Inl (Error ''failed to extract 7z: exit status 1''), ?w2)"
    by (rule pair_snd) (simp add: demo_defs oddFile_def is7z_def run_defs)
  from processFile_unparsed_time [where spreadsheetID = "''sheet1''" and dbHost = "''srv''"
      and dbUser = "[]" and dbPass = "[]" and dbName = "''db''"
      and updateQuery = "''UPDATE t SET x = 1''", OF size tmp ext parse]
  have "processFile ?E ''sheet1'' oddFile ''srv'' [] [] ''db'' ''pw'' ''UPDATE t SET x = 1'' world0
      = (Some (Error ''failed to extract 7z: exit status 1''),
         snd (perform ?E (RemoveAll ''/tmp/backup-1'') ?w2))"
    by blast
  with parse show ?thesis
    by (simp add: demo_defs oddFile_def is7z_def run_defs)
qed

end
